theory Spec2Isabelle
  imports Complex_Main "HOL-Library.AList" "HOL-Library.Sublist"
begin

section \<open>The agent orchestrator of AgentricAI University\<close>

text \<open>
  A shallow embedding of \<^verbatim>\<open>src/core/orchestrator.js\<close> (class \<^verbatim>\<open>AgentOrchestrator\<close>).

  \<^item> Every JavaScript object the class creates for an agent lives in a store
    (\<open>objects\<close>, indexed by address); the two \<^verbatim>\<open>Map\<close>s and the fields
    \<^verbatim>\<open>guardian\<close>, \<^verbatim>\<open>blackBox\<close>, \<^verbatim>\<open>studentAgent\<close> hold addresses, so that several names
    for one object see the same mutations, as in the source.
  \<^item> A JavaScript \<^verbatim>\<open>Map\<close> is an association list in insertion order;
    \<^verbatim>\<open>Map.set\<close> is \<open>AList.update\<close> (replace in place, or append).
  \<^item> An \<^verbatim>\<open>async\<close> method returns its result together with the new state; a
    rejected promise (a thrown error) is \<open>Inl\<close>, a resolved one \<open>Inr\<close>.
  \<^item> The clock (\<^verbatim>\<open>new Date()\<close>, \<^verbatim>\<open>Date.now()\<close>) is the field \<open>now\<close> of the state;
    the identifier drawn by \<^verbatim>\<open>uuidv4()\<close> is an argument of \<open>routeMessage\<close>.
  \<^item> The winston logger and the event emitter are collaborators; what they were
    given is kept in \<open>logs\<close> and \<open>events\<close>. The logger has one method per level
    of its level set (\<open>loggerLevels\<close>). \<^verbatim>\<open>setupLogger\<close> passes no \<^verbatim>\<open>levels\<close> option to
    \<^verbatim>\<open>winston.createLogger\<close>, so the set is the library's default: error, warn,
    info, http, verbose, debug, silly. The class calls error, warn, info and debug,
    which are in it, and \<^verbatim>\<open>critical\<close> (in \<^verbatim>\<open>handleEmergency\<close> and in the emergency
    listener), which is not; calling a missing method raises a TypeError.
  \<^item> The property \<^verbatim>\<open>processMessage\<close> of an agent object is either the closure
    that \<^verbatim>\<open>createAgent\<close> installs (it calls \<^verbatim>\<open>processAgentMessage\<close>) or an
    implementation supplied from outside the class, which returns or throws.
    Every invocation, with its outcome, is appended to \<open>calls\<close>.
\<close>

subsection \<open>Data model\<close>

type_synonym addr = nat
type_synonym timestamp = nat

datatype error = TypeError string | Error string

fun message_of :: "error \<Rightarrow> string" where
  "message_of (TypeError m) = m"
| "message_of (Error m) = m"

text \<open>The objects agents answer with; a property that is absent is \<open>None\<close>
  (or \<open>False\<close> where the class only tests its truthiness).\<close>

record agentResponse =
  success :: bool
  response :: "string option"
  responded_at :: "timestamp option"
  approved :: bool
  reason :: "string option"
  error_message :: "string option"
  containsGoals :: bool
  extractedGoals :: "string list"

record envelopeMetadata =
  systemGenerated :: bool
  ethicalReview :: bool
  studentVisible :: bool

record messageEnvelope =
  envelope_id :: string
  from_agent :: string
  to_agent :: string
  content :: string
  timestamp :: timestamp
  msg_priority :: int
  env_metadata :: envelopeMetadata

record interaction =
  interaction_content :: "string option"

text \<open>The messages the class passes to \<^verbatim>\<open>processMessage\<close>. \<open>Deliver\<close> is the bare
  envelope handed to the target agent (an object without a \<^verbatim>\<open>type\<close> property).\<close>

datatype message =
    EthicalReview messageEnvelope
  | LogInteraction messageEnvelope
  | Deliver messageEnvelope
  | StudentInteraction string interaction timestamp
  | EmotionalMonitoring string interaction agentResponse
  | DepartmentalQuery string interaction agentResponse
  | EmergencyResponse string string
  | EmergencyProtocol string string timestamp
  | SystemEmergency string string timestamp
  | AdminInput string string timestamp
  | GoalProcessing string "string list" string

fun message_type :: "message \<Rightarrow> string" where
  "message_type (EthicalReview _) = ''ethical_review''"
| "message_type (LogInteraction _) = ''log_interaction''"
| "message_type (Deliver _) = ''undefined''"
| "message_type (StudentInteraction _ _ _) = ''student_interaction''"
| "message_type (EmotionalMonitoring _ _ _) = ''emotional_monitoring''"
| "message_type (DepartmentalQuery _ _ _) = ''departmental_query''"
| "message_type (EmergencyResponse _ _) = ''emergency_response''"
| "message_type (EmergencyProtocol _ _ _) = ''emergency_protocol''"
| "message_type (SystemEmergency _ _ _) = ''system_emergency''"
| "message_type (AdminInput _ _ _) = ''admin_input''"
| "message_type (GoalProcessing _ _ _) = ''goal_processing''"

datatype outcome = Throws error | Returns agentResponse

datatype handler =
    ProcessAgentMessage
  | Implementation "message \<Rightarrow> outcome"

record metadata =
  createdAt :: timestamp
  lastActive :: timestamp
  interactions :: nat
  successRate :: real

text \<open>The second argument of \<^verbatim>\<open>updateStatus\<close>: the properties that
  \<^verbatim>\<open>Object.assign\<close> copies into the agent's metadata.\<close>

record metadataPatch =
  patch_createdAt :: "timestamp option"
  patch_lastActive :: "timestamp option"
  patch_interactions :: "nat option"
  patch_successRate :: "real option"

record agent =
  agent_id :: string
  name :: "string option"
  agent_type :: "string option"
  status :: string
  priority :: int
  capabilities :: "string list"
  specializations :: "(string \<times> string) list"
  metadata :: metadata
  processMessage :: handler
  immutable :: "bool option"
  isStudentFacing :: "bool option"

text \<open>An entry of the agent registry (\<^verbatim>\<open>registry.json\<close>), as far as
  \<^verbatim>\<open>createAgent\<close> reads it.\<close>

record config =
  config_id :: "string option"
  config_name :: "string option"
  config_type :: "string option"
  config_priority :: "int option"
  config_capabilities :: "string list option"
  config_specializations :: "(string \<times> string) list option"

text \<open>The registry file is not part of the sources at hand, so it is a
  parameter. An entry that is missing or \<^verbatim>\<open>null\<close> is \<open>None\<close> (so is an entry whose
  enclosing object is missing: reading it raises a TypeError in the same \<^verbatim>\<open>try\<close> block
  as creating an agent from nothing); \<open>departmentalAgents\<close> lists the entries in the
  order of \<^verbatim>\<open>Object.entries\<close>, and is \<open>None\<close> when the registry has no such object.\<close>

record agentRegistry =
  registry_guardian :: "config option"
  registry_blackBox :: "config option"
  departmentalAgents :: "(string \<times> config option) list option"
  registry_agentricAI :: "config option"

record systemState =
  state_status :: string
  lastHealthCheck :: "timestamp option"
  activeConnections :: nat
  totalInteractions :: nat
  emergencyMode :: bool

record healthFlags =
  flag_emergencyMode :: bool
  guardianActive :: bool
  blackBoxActive :: bool

record health =
  health_status :: string
  health_timestamp :: timestamp
  agents_total :: nat
  agents_active :: nat
  agents_immutable :: nat
  agents_departmental :: nat
  perf_totalInteractions :: nat
  averageResponseTime :: nat
  perf_uptime :: nat
  flags :: healthFlags

datatype event =
    SystemReady
  | SystemError error
  | AgentStatusUpdate string string metadataPatch
  | SystemEmergencyEvent string string
  | SystemHealthCheck health

type_synonym logEntry = "string \<times> string \<times> string option"

record orchestrator =
  agents :: "(string \<times> addr) list"
  activeAgents :: "(string \<times> addr) list"
  isInitialized :: bool
  guardian :: "addr option"
  blackBox :: "addr option"
  studentAgent :: "addr option"
  systemState :: systemState
  objects :: "addr \<Rightarrow> agent"
  nextAddr :: addr
  now :: timestamp
  uptime :: nat
  healthTimers :: nat
  loggerLevels :: "string list"
  logs :: "logEntry list"
  events :: "event list"
  calls :: "(addr \<times> message \<times> outcome) list"

type_synonym 'a result = "(error + 'a) \<times> orchestrator"

subsection \<open>Strings\<close>

text \<open>Decimal digits of a number, for the template literal that builds a default
  agent id from \<^verbatim>\<open>Date.now()\<close>.\<close>

fun decimal :: "nat \<Rightarrow> string" where
  "decimal n =
     (if n < 10 then [''0123456789'' ! n]
      else decimal (n div 10) @ [''0123456789'' ! (n mod 10)])"

declare decimal.simps [simp del]

text \<open>\<^verbatim>\<open>String.prototype.toLowerCase\<close> on the letters A to Z; every other
  character is kept (the embedding covers ASCII text).\<close>

definition lower_char :: "char \<Rightarrow> char" where
  "lower_char c =
     (case map_of (zip ''ABCDEFGHIJKLMNOPQRSTUVWXYZ'' ''abcdefghijklmnopqrstuvwxyz'') c of
        Some d \<Rightarrow> d
      | None \<Rightarrow> c)"

definition toLowerCase :: "string \<Rightarrow> string" where
  "toLowerCase s = map lower_char s"

text \<open>\<^verbatim>\<open>String.prototype.includes\<close>: the second string occurs in the first as a
  contiguous block.\<close>

fun includes_str :: "string \<Rightarrow> string \<Rightarrow> bool" where
  "includes_str [] sub = (sub = [])"
| "includes_str (c # cs) sub = (prefix sub (c # cs) \<or> includes_str cs sub)"

subsection \<open>The department classifier\<close>

text \<open>\<^verbatim>\<open>interaction.content?.toLowerCase() || ''\<close>: a missing content counts
  as the empty string.\<close>

definition determineDepartment :: "interaction \<Rightarrow> string option" where
  "determineDepartment i =
     (let content = (case interaction_content i of
                       None \<Rightarrow> ''''
                     | Some c \<Rightarrow> toLowerCase c)
      in if includes_str content ''math'' \<or> includes_str content ''calculation'' then Some ''math''
         else if includes_str content ''science'' \<or> includes_str content ''experiment'' then Some ''science''
         else if includes_str content ''art'' \<or> includes_str content ''creative'' then Some ''arts''
         else if includes_str content ''exercise'' \<or> includes_str content ''fitness'' then Some ''athletics''
         else if includes_str content ''sad'' \<or> includes_str content ''worried'' then Some ''counseling''
         else None)"

text \<open>The classifier as the specification words it: an ordered keyword table, of
  which the first row with a keyword that occurs in the content decides. It is the
  yardstick for \<open>determineDepartment\<close>, not a part of the program.\<close>

definition keywordTable :: "(string list \<times> string) list" where
  "keywordTable =
     [([''math'', ''calculation''], ''math''),
      ([''science'', ''experiment''], ''science''),
      ([''art'', ''creative''], ''arts''),
      ([''exercise'', ''fitness''], ''athletics''),
      ([''sad'', ''worried''], ''counseling'')]"

definition specFirstMatch :: "string \<Rightarrow> string option" where
  "specFirstMatch body =
     map_option snd (find (\<lambda>row. list_ex (\<lambda>keyword. sublist keyword body) (fst row)) keywordTable)"

subsection \<open>Logger, event emitter, constructor\<close>

definition logger :: "string \<Rightarrow> string \<Rightarrow> string option \<Rightarrow> orchestrator \<Rightarrow> orchestrator" where
  "logger level text detail s = s\<lparr>logs := logs s @ [(level, text, detail)]\<rparr>"

text \<open>\<^verbatim>\<open>emit\<close> runs the listeners of \<^verbatim>\<open>setupEventHandlers\<close>: a status update is
  logged at level debug, an emergency at level critical (the class emits an
  emergency only at the end of \<^verbatim>\<open>handleEmergency\<close>, after the same logger method
  has been called once already).\<close>

definition emit :: "event \<Rightarrow> orchestrator \<Rightarrow> orchestrator" where
  "emit e s =
     (let s1 = s\<lparr>events := events s @ [e]\<rparr>
      in case e of
           AgentStatusUpdate _ _ _ \<Rightarrow> logger ''debug'' ''Agent status update:'' None s1
         | SystemEmergencyEvent _ _ \<Rightarrow> logger ''critical'' ''System emergency:'' None s1
         | _ \<Rightarrow> s1)"

text \<open>\<^verbatim>\<open>setupLogger\<close>: the level methods of the logger that
  \<^verbatim>\<open>winston.createLogger\<close> returns when it is given a level threshold, a format
  and transports, but no level set of its own.\<close>

definition setupLogger :: "string list" where
  "setupLogger = [''error'', ''warn'', ''info'', ''http'', ''verbose'', ''debug'', ''silly'']"

text \<open>The state the constructor leaves, for the clock reading at the start.\<close>

definition constructor :: "timestamp \<Rightarrow> orchestrator" where
  "constructor t =
     \<lparr>agents = [], activeAgents = [], isInitialized = False,
      guardian = None, blackBox = None, studentAgent = None,
      systemState = \<lparr>state_status = ''initializing'', lastHealthCheck = None,
                      activeConnections = 0, totalInteractions = 0, emergencyMode = False\<rparr>,
      objects = (\<lambda>_. undefined), nextAddr = 0, now = t, uptime = 0, healthTimers = 0,
      loggerLevels = setupLogger, logs = [], events = [], calls = []\<rparr>"

definition update_object :: "addr \<Rightarrow> (agent \<Rightarrow> agent) \<Rightarrow> orchestrator \<Rightarrow> orchestrator" where
  "update_object a f s = s\<lparr>objects := (objects s)(a := f (objects s a))\<rparr>"

subsection \<open>Agents\<close>

text \<open>\<^verbatim>\<open>a || b\<close> on an optional string: the empty string is falsy too.\<close>

definition or_else :: "string option \<Rightarrow> string \<Rightarrow> string" where
  "or_else a b = (case a of None \<Rightarrow> b | Some x \<Rightarrow> if x = [] then b else x)"

text \<open>\<^verbatim>\<open>createAgent(agentId, config)\<close>. Reading \<^verbatim>\<open>config.id\<close> of a missing
  configuration raises a TypeError; nothing else in the method can fail. The new
  object is stored under \<open>agentId\<close> whatever the map held there before.\<close>

definition createAgent :: "string \<Rightarrow> config option \<Rightarrow> orchestrator \<Rightarrow> addr result" where
  "createAgent agentId cfg s =
     (case cfg of
        None \<Rightarrow> (Inl (TypeError ''Cannot read properties of undefined (reading id)''), s)
      | Some c \<Rightarrow>
         (let agent = \<lparr>agent_id = or_else (config_id c) (''agent-'' @ agentId @ ''-'' @ decimal (now s)),
                       name = config_name c,
                       agent_type = config_type c,
                       status = ''active'',
                       priority = (case config_priority c of
                                     None \<Rightarrow> 5
                                   | Some p \<Rightarrow> if p = 0 then 5 else p),
                       capabilities = (case config_capabilities c of None \<Rightarrow> [] | Some cs \<Rightarrow> cs),
                       specializations = (case config_specializations c of None \<Rightarrow> [] | Some sp \<Rightarrow> sp),
                       metadata = \<lparr>createdAt = now s, lastActive = now s,
                                    interactions = 0, successRate = 1\<rparr>,
                       processMessage = ProcessAgentMessage,
                       immutable = None,
                       isStudentFacing = None\<rparr>;
              a = nextAddr s
          in (Inr a, s\<lparr>objects := (objects s)(a := agent),
                        nextAddr := Suc a,
                        agents := AList.update agentId a (agents s)\<rparr>)))"

text \<open>\<^verbatim>\<open>processAgentMessage(agent, message)\<close>, the placeholder behind every
  agent that \<^verbatim>\<open>createAgent\<close> builds. Its answer has no \<^verbatim>\<open>approved\<close> property.\<close>

definition processAgentMessage :: "addr \<Rightarrow> message \<Rightarrow> orchestrator \<Rightarrow> outcome \<times> orchestrator" where
  "processAgentMessage a m s =
     (let s1 = update_object a
                 (\<lambda>ag. ag\<lparr>metadata := (metadata ag)\<lparr>interactions := interactions (metadata ag) + 1\<rparr>\<rparr>) s
      in (Returns \<lparr>success = True,
                   response = Some ((case name (objects s a) of None \<Rightarrow> ''undefined'' | Some n \<Rightarrow> n)
                                     @ '' processed message: '' @ message_type m),
                   responded_at = Some (now s),
                   approved = False, reason = None, error_message = None,
                   containsGoals = False, extractedGoals = []\<rparr>,
          s1))"

text \<open>\<^verbatim>\<open>await x.processMessage(m)\<close> for the agent object at address \<open>a\<close>. The
  call, with what it answered, is appended to \<open>calls\<close>.\<close>

definition invoke :: "addr \<Rightarrow> message \<Rightarrow> orchestrator \<Rightarrow> outcome \<times> orchestrator" where
  "invoke a m s =
     (case (case processMessage (objects s a) of
              ProcessAgentMessage \<Rightarrow> processAgentMessage a m s
            | Implementation f \<Rightarrow> (f m, s)) of
        (out, s1) \<Rightarrow> (out, s1\<lparr>calls := calls s1 @ [(a, m, out)]\<rparr>))"

text \<open>The agent method \<^verbatim>\<open>updateStatus(status, metadata = {})\<close>.\<close>

definition assign_metadata :: "metadataPatch \<Rightarrow> metadata \<Rightarrow> metadata" where
  "assign_metadata p md =
     \<lparr>createdAt = (case patch_createdAt p of None \<Rightarrow> createdAt md | Some v \<Rightarrow> v),
      lastActive = (case patch_lastActive p of None \<Rightarrow> lastActive md | Some v \<Rightarrow> v),
      interactions = (case patch_interactions p of None \<Rightarrow> interactions md | Some v \<Rightarrow> v),
      successRate = (case patch_successRate p of None \<Rightarrow> successRate md | Some v \<Rightarrow> v)\<rparr>"

definition updateStatus :: "addr \<Rightarrow> string \<Rightarrow> metadataPatch \<Rightarrow> orchestrator \<Rightarrow> orchestrator" where
  "updateStatus a st patch s =
     (let s1 = update_object a
                 (\<lambda>ag. ag\<lparr>status := st,
                           metadata := assign_metadata patch ((metadata ag)\<lparr>lastActive := now s\<rparr>)\<rparr>) s
      in emit (AgentStatusUpdate (agent_id (objects s a)) st patch) s1)"

subsection \<open>Routing\<close>

definition getMessagePriority :: "string \<Rightarrow> string \<Rightarrow> orchestrator \<Rightarrow> int" where
  "getMessagePriority fromAgentId toAgentId s =
     (case (map_of (activeAgents s) fromAgentId, map_of (activeAgents s) toAgentId) of
        (Some fromAgent, Some toAgent) \<Rightarrow>
          if fromAgentId = ''guardian'' \<or> toAgentId = ''guardian'' then 1
          else if fromAgentId = ''counseling'' \<or> toAgentId = ''counseling'' then 2
          else min (priority (objects s fromAgent)) (priority (objects s toAgent))
      | _ \<Rightarrow> 5)"

definition failure :: agentResponse where
  "failure = \<lparr>success = False, response = None, responded_at = None, approved = False,
              reason = None, error_message = None, containsGoals = False, extractedGoals = []\<rparr>"

text \<open>The \<^verbatim>\<open>catch\<close> block of \<^verbatim>\<open>routeMessage\<close>.\<close>

definition routingFailed :: "error \<Rightarrow> orchestrator \<Rightarrow> agentResponse \<times> orchestrator" where
  "routingFailed e s =
     (failure\<lparr>error_message := Some (message_of e)\<rparr>,
      logger ''error'' ''Message routing failed:'' (Some (message_of e)) s)"

text \<open>\<^verbatim>\<open>if (x) { await x.processMessage(m); }\<close>: the error thrown, if any.\<close>

definition notify :: "addr option \<Rightarrow> message \<Rightarrow> orchestrator \<Rightarrow> error option \<times> orchestrator" where
  "notify x m s =
     (case x of
        None \<Rightarrow> (None, s)
      | Some a \<Rightarrow> (case invoke a m s of
                    (Throws e, s1) \<Rightarrow> (Some e, s1)
                  | (Returns _, s1) \<Rightarrow> (None, s1)))"

text \<open>The part of \<^verbatim>\<open>routeMessage\<close> after the Guardian's review: Black Box
  logging, lookup of the target, delivery, the interaction counter.\<close>

definition logAndDeliver :: "messageEnvelope \<Rightarrow> orchestrator \<Rightarrow> agentResponse \<times> orchestrator" where
  "logAndDeliver messageEnvelope s =
     (case notify (blackBox s) (LogInteraction messageEnvelope) s of
        (Some e, s1) \<Rightarrow> routingFailed e s1
      | (None, s1) \<Rightarrow>
         (case map_of (activeAgents s1) (to_agent messageEnvelope) of
            None \<Rightarrow> routingFailed
                      (Error (''Target agent '' @ [CHR 0x27] @ to_agent messageEnvelope
                               @ [CHR 0x27] @ '' not found'')) s1
          | Some targetAgent \<Rightarrow>
             (case invoke targetAgent (Deliver messageEnvelope) s1 of
                (Throws e, s2) \<Rightarrow> routingFailed e s2
              | (Returns r, s2) \<Rightarrow>
                  (r, s2\<lparr>systemState := (systemState s2)
                            \<lparr>totalInteractions := totalInteractions (systemState s2) + 1\<rparr>\<rparr>))))"

definition buildEnvelope :: "string \<Rightarrow> string \<Rightarrow> string \<Rightarrow> string \<Rightarrow> orchestrator \<Rightarrow> messageEnvelope" where
  "buildEnvelope uuid fromAgentId toAgentId msg s =
     \<lparr>envelope_id = uuid, from_agent = fromAgentId, to_agent = toAgentId, content = msg,
      timestamp = now s, msg_priority = getMessagePriority fromAgentId toAgentId s,
      env_metadata = \<lparr>systemGenerated = False, ethicalReview = False, studentVisible = False\<rparr>\<rparr>"

text \<open>\<^verbatim>\<open>routeMessage(fromAgentId, toAgentId, message)\<close>; \<open>uuid\<close> is what
  \<^verbatim>\<open>uuidv4()\<close> returns in this call. The method never rejects.\<close>

definition routeMessage ::
  "string \<Rightarrow> string \<Rightarrow> string \<Rightarrow> string \<Rightarrow> orchestrator \<Rightarrow> agentResponse \<times> orchestrator" where
  "routeMessage uuid fromAgentId toAgentId msg s =
     (let messageEnvelope = buildEnvelope uuid fromAgentId toAgentId msg s
      in case (if fromAgentId \<noteq> ''guardian'' then guardian s else None) of
           Some g \<Rightarrow>
             (case invoke g (EthicalReview messageEnvelope) s of
                (Throws e, s1) \<Rightarrow> routingFailed e s1
              | (Returns reviewResult, s1) \<Rightarrow>
                  if \<not> approved reviewResult
                  then (failure\<lparr>reason := reason reviewResult\<rparr>,
                        logger ''warn''
                          (''Message blocked by Guardian: ''
                             @ (case reason reviewResult of None \<Rightarrow> ''undefined'' | Some r \<Rightarrow> r))
                          None s1)
                  else logAndDeliver
                         (messageEnvelope\<lparr>env_metadata :=
                            (env_metadata messageEnvelope)\<lparr>ethicalReview := True\<rparr>\<rparr>) s1)
         | None \<Rightarrow> logAndDeliver messageEnvelope s)"

text \<open>The agent method \<^verbatim>\<open>sendMessage\<close>: the sender is the agent's own \<^verbatim>\<open>id\<close>
  property, not the key it is registered under.\<close>

definition sendMessage ::
  "addr \<Rightarrow> string \<Rightarrow> string \<Rightarrow> string \<Rightarrow> orchestrator \<Rightarrow> agentResponse \<times> orchestrator" where
  "sendMessage a uuid targetAgentId msg s =
     routeMessage uuid (agent_id (objects s a)) targetAgentId msg s"

subsection \<open>Initialization\<close>

definition initializeImmutableAgents :: "agentRegistry \<Rightarrow> orchestrator \<Rightarrow> unit result" where
  "initializeImmutableAgents reg s =
     (case createAgent ''guardian'' (registry_guardian reg) s of
        (Inl e, s1) \<Rightarrow>
          (Inl e, logger ''error'' ''Failed to initialize immutable agents:'' (Some (message_of e)) s1)
      | (Inr g, s1) \<Rightarrow>
         (let s2 = update_object g (\<lambda>ag. ag\<lparr>immutable := Some True, priority := 0\<rparr>)
                     (s1\<lparr>guardian := Some g\<rparr>);
              s3 = s2\<lparr>activeAgents := AList.update ''guardian'' g (activeAgents s2)\<rparr>
          in case createAgent ''blackBox'' (registry_blackBox reg) s3 of
               (Inl e, s4) \<Rightarrow>
                 (Inl e, logger ''error'' ''Failed to initialize immutable agents:''
                           (Some (message_of e)) s4)
             | (Inr b, s4) \<Rightarrow>
                (let s5 = update_object b (\<lambda>ag. ag\<lparr>immutable := Some True, priority := 0\<rparr>)
                            (s4\<lparr>blackBox := Some b\<rparr>);
                     s6 = s5\<lparr>activeAgents := AList.update ''blackBox'' b (activeAgents s5)\<rparr>
                 in (Inr (), logger ''info'' ''Immutable agents initialized successfully'' None s6))))"

text \<open>The loop of \<^verbatim>\<open>initializeDepartmentalAgents\<close>: a creation that throws is
  logged and the loop goes on.\<close>

fun initializeDepartments :: "(string \<times> config option) list \<Rightarrow> orchestrator \<Rightarrow> orchestrator" where
  "initializeDepartments [] s = s"
| "initializeDepartments ((departmentId, agentConfig) # rest) s =
     (case createAgent departmentId agentConfig s of
        (Inl e, s1) \<Rightarrow>
          initializeDepartments rest
            (logger ''error'' (''Failed to initialize '' @ departmentId @ '' agent:'')
               (Some (message_of e)) s1)
      | (Inr a, s1) \<Rightarrow>
          initializeDepartments rest
            (logger ''info''
               (''Departmental agent '' @ [CHR 0x27]
                  @ (case Option.bind agentConfig config_name of None \<Rightarrow> ''undefined'' | Some n \<Rightarrow> n)
                  @ [CHR 0x27] @ '' initialized'')
               None
               (s1\<lparr>activeAgents := AList.update departmentId a (activeAgents s1)\<rparr>)))"

definition initializeDepartmentalAgents :: "agentRegistry \<Rightarrow> orchestrator \<Rightarrow> unit result" where
  "initializeDepartmentalAgents reg s =
     (case departmentalAgents reg of
        None \<Rightarrow> (Inl (TypeError ''Cannot convert undefined or null to object''), s)
      | Some departments \<Rightarrow> (Inr (), initializeDepartments departments s))"

definition initializeStudentAgent :: "agentRegistry \<Rightarrow> orchestrator \<Rightarrow> unit result" where
  "initializeStudentAgent reg s =
     (case createAgent ''agentricAI'' (registry_agentricAI reg) s of
        (Inl e, s1) \<Rightarrow>
          (Inl e, logger ''error'' ''Failed to initialize student agent:'' (Some (message_of e)) s1)
      | (Inr a, s1) \<Rightarrow>
         (let s2 = update_object a (\<lambda>ag. ag\<lparr>isStudentFacing := Some True\<rparr>)
                     (s1\<lparr>studentAgent := Some a\<rparr>);
              s3 = s2\<lparr>activeAgents := AList.update ''agentricAI'' a (activeAgents s2)\<rparr>
          in (Inr (), logger ''info'' ''Student-facing agent initialized successfully'' None s3)))"

definition setupCommunicationChannels :: "orchestrator \<Rightarrow> orchestrator" where
  "setupCommunicationChannels s = logger ''info'' ''Communication channels established'' None s"

text \<open>\<^verbatim>\<open>startHealthMonitoring\<close> registers one more interval timer.\<close>

definition startHealthMonitoring :: "orchestrator \<Rightarrow> orchestrator" where
  "startHealthMonitoring s = s\<lparr>healthTimers := healthTimers s + 1\<rparr>"

text \<open>The \<^verbatim>\<open>catch\<close> block of \<^verbatim>\<open>initialize\<close>.\<close>

definition initializeFailed :: "error \<Rightarrow> orchestrator \<Rightarrow> unit result" where
  "initializeFailed e s =
     (let s1 = logger ''error'' ''Failed to initialize orchestrator:'' (Some (message_of e)) s;
          s2 = s1\<lparr>systemState := (systemState s1)\<lparr>state_status := ''error''\<rparr>\<rparr>
      in (Inl e, emit (SystemError e) s2))"

definition initialize :: "agentRegistry \<Rightarrow> orchestrator \<Rightarrow> unit result" where
  "initialize reg s =
     (case initializeImmutableAgents reg
             (logger ''info'' ''Initializing AgentricAI University Orchestrator'' None s) of
        (Inl e, s1) \<Rightarrow> initializeFailed e s1
      | (Inr _, s1) \<Rightarrow>
         (case initializeDepartmentalAgents reg s1 of
            (Inl e, s2) \<Rightarrow> initializeFailed e s2
          | (Inr _, s2) \<Rightarrow>
             (case initializeStudentAgent reg s2 of
                (Inl e, s3) \<Rightarrow> initializeFailed e s3
              | (Inr _, s3) \<Rightarrow>
                 (let s4 = startHealthMonitoring (setupCommunicationChannels s3);
                      s5 = s4\<lparr>isInitialized := True,
                              systemState := (systemState s4)\<lparr>state_status := ''operational''\<rparr>\<rparr>
                  in (Inr (), emit SystemReady
                                (logger ''info'' ''Orchestrator successfully initialized'' None s5))))))"

subsection \<open>Emergencies\<close>

text \<open>\<^verbatim>\<open>handleEmergency(type, data)\<close>. The first statement calls
  \<^verbatim>\<open>this.logger.critical\<close>; where the logger has no such method the call raises a
  TypeError and nothing else happens. Then come three awaited calls in a row, with
  no \<^verbatim>\<open>try\<close> around any of them, so the first error thrown ends the method.\<close>

definition handleEmergency :: "string \<Rightarrow> string \<Rightarrow> orchestrator \<Rightarrow> unit result" where
  "handleEmergency emergencyType data s =
     (if ''critical'' \<notin> set (loggerLevels s)
      then (Inl (TypeError ''this.logger.critical is not a function''), s)
      else
      let s1 = logger ''critical'' (''Emergency detected: '' @ emergencyType) (Some data) s;
          s2 = s1\<lparr>systemState := (systemState s1)\<lparr>emergencyMode := True\<rparr>\<rparr>
      in case notify (guardian s2) (EmergencyProtocol emergencyType data (now s2)) s2 of
           (Some e, s3) \<Rightarrow> (Inl e, s3)
         | (None, s3) \<Rightarrow>
            (let emergencyMessage = SystemEmergency emergencyType data (now s3)
             in case notify (map_of (activeAgents s3) ''counseling'') emergencyMessage s3 of
                  (Some e, s4) \<Rightarrow> (Inl e, s4)
                | (None, s4) \<Rightarrow>
                   (case notify (map_of (activeAgents s4) ''principal'') emergencyMessage s4 of
                      (Some e, s5) \<Rightarrow> (Inl e, s5)
                    | (None, s5) \<Rightarrow>
                        (Inr (), emit (SystemEmergencyEvent emergencyType data) s5))))"

subsection \<open>Student and administrative flows\<close>

text \<open>The \<^verbatim>\<open>try\<close> block of \<^verbatim>\<open>processStudentInteraction\<close>. Calling
  \<^verbatim>\<open>processMessage\<close> on a student agent that is still \<^verbatim>\<open>null\<close> raises a TypeError.\<close>

definition studentInteractionSteps :: "string \<Rightarrow> interaction \<Rightarrow> orchestrator \<Rightarrow> agentResponse result" where
  "studentInteractionSteps studentId i s =
     (case studentAgent s of
        None \<Rightarrow> (Inl (TypeError ''Cannot read properties of null (reading processMessage)''), s)
      | Some sa \<Rightarrow>
         (case invoke sa (StudentInteraction studentId i (now s)) s of
            (Throws e, s1) \<Rightarrow> (Inl e, s1)
          | (Returns studentResponse, s1) \<Rightarrow>
             (case notify (map_of (activeAgents s1) ''counseling'')
                     (EmotionalMonitoring studentId i studentResponse) s1 of
                (Some e, s2) \<Rightarrow> (Inl e, s2)
              | (None, s2) \<Rightarrow>
                 (case notify (case determineDepartment i of
                                 None \<Rightarrow> None
                               | Some department \<Rightarrow> map_of (activeAgents s2) department)
                         (DepartmentalQuery studentId i studentResponse) s2 of
                    (Some e, s3) \<Rightarrow> (Inl e, s3)
                  | (None, s3) \<Rightarrow> (Inr studentResponse, s3)))))"

definition processStudentInteraction :: "string \<Rightarrow> interaction \<Rightarrow> orchestrator \<Rightarrow> agentResponse result" where
  "processStudentInteraction studentId i s =
     (case studentInteractionSteps studentId i s of
        (Inr r, s1) \<Rightarrow> (Inr r, s1)
      | (Inl e, s1) \<Rightarrow>
         (let s2 = logger ''error'' ''Student interaction processing failed:'' (Some (message_of e)) s1
          in case map_of (activeAgents s2) ''counseling'' of
               Some c \<Rightarrow>
                 (case invoke c (EmergencyResponse studentId (message_of e)) s2 of
                    (Throws e', s3) \<Rightarrow> (Inl e', s3)
                  | (Returns r, s3) \<Rightarrow> (Inr r, s3))
             | None \<Rightarrow> (Inl e, s2)))"

text \<open>The \<^verbatim>\<open>try\<close> block of \<^verbatim>\<open>processAdminMessage\<close>.\<close>

definition adminMessageSteps :: "string \<Rightarrow> string \<Rightarrow> orchestrator \<Rightarrow> agentResponse result" where
  "adminMessageSteps source msg s =
     (case map_of (activeAgents s) ''admin'' of
        None \<Rightarrow> (Inl (Error ''Administrative agent not available''), s)
      | Some adminAgent \<Rightarrow>
         (case invoke adminAgent (AdminInput source msg (now s)) s of
            (Throws e, s1) \<Rightarrow> (Inl e, s1)
          | (Returns r, s1) \<Rightarrow>
             (case notify (if containsGoals r then map_of (activeAgents s1) ''curriculum'' else None)
                     (GoalProcessing source (extractedGoals r) msg) s1 of
                (Some e, s2) \<Rightarrow> (Inl e, s2)
              | (None, s2) \<Rightarrow> (Inr r, s2))))"

definition processAdminMessage :: "string \<Rightarrow> string \<Rightarrow> orchestrator \<Rightarrow> agentResponse result" where
  "processAdminMessage source msg s =
     (case adminMessageSteps source msg s of
        (Inr r, s1) \<Rightarrow> (Inr r, s1)
      | (Inl e, s1) \<Rightarrow>
          (Inl e, logger ''error'' ''Admin message processing failed:'' (Some (message_of e)) s1))"

subsection \<open>Health\<close>

definition calculateAverageResponseTime :: nat where
  "calculateAverageResponseTime = 250"

definition getSystemHealth :: "agentRegistry \<Rightarrow> orchestrator \<Rightarrow> error + health" where
  "getSystemHealth reg s =
     (case departmentalAgents reg of
        None \<Rightarrow> Inl (TypeError ''Cannot convert undefined or null to object'')
      | Some departments \<Rightarrow>
          Inr \<lparr>health_status = state_status (systemState s),
               health_timestamp = now s,
               agents_total = length (agents s),
               agents_active = length (activeAgents s),
               agents_immutable = 2,
               agents_departmental = length departments,
               perf_totalInteractions = totalInteractions (systemState s),
               averageResponseTime = calculateAverageResponseTime,
               perf_uptime = uptime s,
               flags = \<lparr>flag_emergencyMode = emergencyMode (systemState s),
                        guardianActive = (case guardian s of
                                            None \<Rightarrow> False
                                          | Some g \<Rightarrow> status (objects s g) = ''active''),
                        blackBoxActive = (case blackBox s of
                                            None \<Rightarrow> False
                                          | Some b \<Rightarrow> status (objects s b) = ''active'')\<rparr>\<rparr>)"

text \<open>One firing of the interval timer of \<^verbatim>\<open>startHealthMonitoring\<close>.\<close>

definition healthCheck :: "agentRegistry \<Rightarrow> orchestrator \<Rightarrow> unit result" where
  "healthCheck reg s =
     (let s1 = s\<lparr>systemState := (systemState s)\<lparr>lastHealthCheck := Some (now s)\<rparr>\<rparr>
      in case getSystemHealth reg s1 of
           Inl e \<Rightarrow> (Inl e, s1)
         | Inr h \<Rightarrow> (Inr (), emit (SystemHealthCheck h) s1))"

subsection \<open>Runs of the orchestrator\<close>

text \<open>What the surroundings of the class do between two calls: time passes, and a
  deployment replaces an agent's \<^verbatim>\<open>processMessage\<close> by its own implementation
  (the class itself only ever installs the placeholder).\<close>

definition advanceClock :: "nat \<Rightarrow> orchestrator \<Rightarrow> orchestrator" where
  "advanceClock d s = s\<lparr>now := now s + d, uptime := uptime s + d\<rparr>"

definition installImplementation :: "addr \<Rightarrow> (message \<Rightarrow> outcome) \<Rightarrow> orchestrator \<Rightarrow> orchestrator" where
  "installImplementation a f s = update_object a (\<lambda>ag. ag\<lparr>processMessage := Implementation f\<rparr>) s"

datatype operation =
    Initialize agentRegistry
  | InitializeImmutableAgents agentRegistry
  | InitializeDepartmentalAgents agentRegistry
  | InitializeStudentAgent agentRegistry
  | SetupCommunicationChannels
  | StartHealthMonitoring
  | CreateAgent string "config option"
  | RouteMessage string string string string
  | SendMessage addr string string string
  | UpdateStatus addr string metadataPatch
  | ProcessStudentInteraction string interaction
  | HandleEmergency string string
  | ProcessAdminMessage string string
  | HealthCheck agentRegistry
  | AdvanceClock nat
  | InstallImplementation addr "message \<Rightarrow> outcome"

fun exec :: "operation \<Rightarrow> orchestrator \<Rightarrow> orchestrator" where
  "exec (Initialize reg) s = snd (initialize reg s)"
| "exec (InitializeImmutableAgents reg) s = snd (initializeImmutableAgents reg s)"
| "exec (InitializeDepartmentalAgents reg) s = snd (initializeDepartmentalAgents reg s)"
| "exec (InitializeStudentAgent reg) s = snd (initializeStudentAgent reg s)"
| "exec SetupCommunicationChannels s = setupCommunicationChannels s"
| "exec StartHealthMonitoring s = startHealthMonitoring s"
| "exec (CreateAgent agentId cfg) s = snd (createAgent agentId cfg s)"
| "exec (RouteMessage uuid fromAgentId toAgentId msg) s = snd (routeMessage uuid fromAgentId toAgentId msg s)"
| "exec (SendMessage a uuid toAgentId msg) s = snd (sendMessage a uuid toAgentId msg s)"
| "exec (UpdateStatus a st patch) s = updateStatus a st patch s"
| "exec (ProcessStudentInteraction studentId i) s = snd (processStudentInteraction studentId i s)"
| "exec (HandleEmergency emergencyType data) s = snd (handleEmergency emergencyType data s)"
| "exec (ProcessAdminMessage source msg) s = snd (processAdminMessage source msg s)"
| "exec (HealthCheck reg) s = snd (healthCheck reg s)"
| "exec (AdvanceClock d) s = advanceClock d s"
| "exec (InstallImplementation a f) s = installImplementation a f s"

fun run :: "operation list \<Rightarrow> orchestrator \<Rightarrow> orchestrator" where
  "run [] s = s"
| "run (op # ops) s = run ops (exec op s)"

subsection \<open>Observing a call\<close>

text \<open>The invocations of \<^verbatim>\<open>processMessage\<close> made between two states.\<close>

definition newCalls :: "orchestrator \<Rightarrow> orchestrator \<Rightarrow> (addr \<times> message \<times> outcome) list" where
  "newCalls s s' = drop (length (calls s)) (calls s')"

text \<open>An audit record for an envelope id: a \<^verbatim>\<open>log_interaction\<close> message that
  carries an envelope with this id.\<close>

fun isAudit :: "string \<Rightarrow> addr \<times> message \<times> outcome \<Rightarrow> bool" where
  "isAudit uuid (a, LogInteraction e, out) = (envelope_id e = uuid)"
| "isAudit uuid _ = False"

definition auditRecords :: "string \<Rightarrow> (addr \<times> message \<times> outcome) list \<Rightarrow> (addr \<times> message \<times> outcome) list" where
  "auditRecords uuid cs = filter (isAudit uuid) cs"

fun isAuditFailure :: "addr \<times> message \<times> outcome \<Rightarrow> bool" where
  "isAuditFailure (a, LogInteraction e, Throws err) = True"
| "isAuditFailure _ = False"

fun isThrow :: "addr \<times> message \<times> outcome \<Rightarrow> bool" where
  "isThrow (a, m, Throws err) = True"
| "isThrow (a, m, Returns r) = False"

text \<open>A delivery: the bare envelope with this id handed to an agent.\<close>

fun isDelivery :: "string \<Rightarrow> addr \<times> message \<times> outcome \<Rightarrow> bool" where
  "isDelivery uuid (a, Deliver e, out) = (envelope_id e = uuid)"
| "isDelivery uuid _ = False"

fun isCompletedDelivery :: "addr \<times> message \<times> outcome \<Rightarrow> bool" where
  "isCompletedDelivery (a, Deliver e, Returns r) = True"
| "isCompletedDelivery _ = False"

text \<open>An approval: an ethical review of the envelope with this id that returned
  an answer whose \<^verbatim>\<open>approved\<close> is truthy.\<close>

fun isApproval :: "string \<Rightarrow> addr \<times> message \<times> outcome \<Rightarrow> bool" where
  "isApproval uuid (a, EthicalReview e, Returns r) = (envelope_id e = uuid \<and> approved r)"
| "isApproval uuid _ = False"

text \<open>The envelope a call carried, if any.\<close>

fun callEnvelope :: "addr \<times> message \<times> outcome \<Rightarrow> messageEnvelope option" where
  "callEnvelope (a, EthicalReview e, out) = Some e"
| "callEnvelope (a, LogInteraction e, out) = Some e"
| "callEnvelope (a, Deliver e, out) = Some e"
| "callEnvelope _ = None"

text \<open>The agents a call reached, in order.\<close>

definition receivers :: "(addr \<times> message \<times> outcome) list \<Rightarrow> addr list" where
  "receivers cs = map fst cs"

text \<open>What the agent at an address answers to a message in a given state.\<close>

definition answer :: "addr \<Rightarrow> message \<Rightarrow> orchestrator \<Rightarrow> outcome" where
  "answer a m s = fst (invoke a m s)"

text \<open>A planned notification: nothing when the agent is absent, else the call
  with its answer.\<close>

definition attempt :: "addr option \<Rightarrow> message \<Rightarrow> orchestrator \<Rightarrow> (addr \<times> message \<times> outcome) list" where
  "attempt x m s = (case x of None \<Rightarrow> [] | Some a \<Rightarrow> [(a, m, answer a m s)])"

text \<open>A sequence of calls cut after the first one that throws.\<close>

fun untilThrow :: "(addr \<times> message \<times> outcome) list \<Rightarrow> (addr \<times> message \<times> outcome) list" where
  "untilThrow [] = []"
| "untilThrow (c # cs) = (if isThrow c then [c] else c # untilThrow cs)"

text \<open>The calls that Black Box logging and the delivery of an envelope consist of:
  the log entry if there is a Black Box, then the delivery if the target is
  active, cut after a call that throws.\<close>

definition loggingAndDelivery :: "messageEnvelope \<Rightarrow> orchestrator \<Rightarrow> (addr \<times> message \<times> outcome) list" where
  "loggingAndDelivery e s =
     untilThrow (attempt (blackBox s) (LogInteraction e) s
                 @ attempt (map_of (activeAgents s) (to_agent e)) (Deliver e) s)"

text \<open>The entries a call added to the log at level error.\<close>

definition errorLogs :: "orchestrator \<Rightarrow> orchestrator \<Rightarrow> logEntry list" where
  "errorLogs s s' = filter (\<lambda>entry. fst entry = ''error'') (drop (length (logs s)) (logs s'))"

subsection \<open>An example deployment\<close>

definition exampleConfig :: "string \<Rightarrow> int \<Rightarrow> config" where
  "exampleConfig n p =
     \<lparr>config_id = None, config_name = Some n, config_type = Some ''agent'',
      config_priority = Some p, config_capabilities = None, config_specializations = None\<rparr>"

definition exampleRegistry :: agentRegistry where
  "exampleRegistry =
     \<lparr>registry_guardian = Some (exampleConfig ''The Guardian'' 0),
      registry_blackBox = Some (exampleConfig ''The Black Box'' 0),
      departmentalAgents = Some [(''principal'', Some (exampleConfig ''The Overseer'' 1)),
                                 (''math'', Some (exampleConfig ''The Mathematician'' 3)),
                                 (''counseling'', Some (exampleConfig ''The Listener'' 4))],
      registry_agentricAI = Some (exampleConfig ''AgentricAI'' 1)\<rparr>"

text \<open>Implementations a deployment may install: one that approves every review,
  one that throws.\<close>

definition approving :: "message \<Rightarrow> outcome" where
  "approving m = Returns (failure\<lparr>success := True, approved := True\<rparr>)"

definition failing :: "message \<Rightarrow> outcome" where
  "failing m = Throws (Error ''agent unavailable'')"

text \<open>The state after a successful start on the example registry
  (the Guardian is object 0, the Black Box object 1, then the departments in
  order, then the student-facing agent).\<close>

definition started :: orchestrator where
  "started = snd (initialize exampleRegistry (constructor 1000))"

text \<open>A fresh orchestrator on which only \<^verbatim>\<open>initializeDepartmentalAgents\<close> was
  called: the departments are active (objects 0, 1 and 2), there is neither a Guardian
  nor a Black Box.\<close>

definition unguarded :: orchestrator where
  "unguarded = snd (initializeDepartmentalAgents exampleRegistry (constructor 1000))"

text \<open>Registries with a fault: a department whose entry is \<^verbatim>\<open>null\<close>, and a
  missing Guardian entry.\<close>

definition faultyDepartment :: agentRegistry where
  "faultyDepartment =
     exampleRegistry\<lparr>departmentalAgents :=
       Some [(''principal'', Some (exampleConfig ''The Overseer'' 1)),
             (''science'', None),
             (''counseling'', Some (exampleConfig ''The Listener'' 4))]\<rparr>"

definition missingGuardian :: agentRegistry where
  "missingGuardian = exampleRegistry\<lparr>registry_guardian := None\<rparr>"

section \<open>Properties\<close>

subsection \<open>What the basic steps change\<close>

lemma logger_simps:
  "agents (logger l t d s) = agents s"
  "activeAgents (logger l t d s) = activeAgents s"
  "isInitialized (logger l t d s) = isInitialized s"
  "guardian (logger l t d s) = guardian s"
  "blackBox (logger l t d s) = blackBox s"
  "studentAgent (logger l t d s) = studentAgent s"
  "systemState (logger l t d s) = systemState s"
  "objects (logger l t d s) = objects s"
  "nextAddr (logger l t d s) = nextAddr s"
  "now (logger l t d s) = now s"
  "calls (logger l t d s) = calls s"
  "loggerLevels (logger l t d s) = loggerLevels s"
  "logs (logger l t d s) = logs s @ [(l, t, d)]"
  by (simp_all add: logger_def)

lemma emit_simps:
  "agents (emit e s) = agents s"
  "activeAgents (emit e s) = activeAgents s"
  "isInitialized (emit e s) = isInitialized s"
  "guardian (emit e s) = guardian s"
  "blackBox (emit e s) = blackBox s"
  "studentAgent (emit e s) = studentAgent s"
  "systemState (emit e s) = systemState s"
  "objects (emit e s) = objects s"
  "nextAddr (emit e s) = nextAddr s"
  "now (emit e s) = now s"
  "calls (emit e s) = calls s"
  "loggerLevels (emit e s) = loggerLevels s"
  by (simp_all add: emit_def logger_def Let_def split: event.splits)

lemma update_object_simps:
  "agents (update_object a f s) = agents s"
  "activeAgents (update_object a f s) = activeAgents s"
  "isInitialized (update_object a f s) = isInitialized s"
  "guardian (update_object a f s) = guardian s"
  "blackBox (update_object a f s) = blackBox s"
  "studentAgent (update_object a f s) = studentAgent s"
  "systemState (update_object a f s) = systemState s"
  "nextAddr (update_object a f s) = nextAddr s"
  "now (update_object a f s) = now s"
  "calls (update_object a f s) = calls s"
  "logs (update_object a f s) = logs s"
  "loggerLevels (update_object a f s) = loggerLevels s"
  "objects (update_object a f s) b = (if b = a then f (objects s a) else objects s b)"
  by (simp_all add: update_object_def)

lemma invoke_simps:
  "fst (invoke a m s) = answer a m s"
  "calls (snd (invoke a m s)) = calls s @ [(a, m, answer a m s)]"
  "agents (snd (invoke a m s)) = agents s"
  "activeAgents (snd (invoke a m s)) = activeAgents s"
  "isInitialized (snd (invoke a m s)) = isInitialized s"
  "guardian (snd (invoke a m s)) = guardian s"
  "blackBox (snd (invoke a m s)) = blackBox s"
  "studentAgent (snd (invoke a m s)) = studentAgent s"
  "systemState (snd (invoke a m s)) = systemState s"
  "nextAddr (snd (invoke a m s)) = nextAddr s"
  "now (snd (invoke a m s)) = now s"
  "logs (snd (invoke a m s)) = logs s"
  "loggerLevels (snd (invoke a m s)) = loggerLevels s"
  by (simp_all add: invoke_def processAgentMessage_def update_object_def Let_def answer_def
           split: handler.splits prod.splits)

lemma invoke_objects:
  "priority (objects (snd (invoke a m s)) b) = priority (objects s b)"
  "immutable (objects (snd (invoke a m s)) b) = immutable (objects s b)"
  "processMessage (objects (snd (invoke a m s)) b) = processMessage (objects s b)"
  "name (objects (snd (invoke a m s)) b) = name (objects s b)"
  "status (objects (snd (invoke a m s)) b) = status (objects s b)"
  "agent_id (objects (snd (invoke a m s)) b) = agent_id (objects s b)"
  by (simp_all add: invoke_def processAgentMessage_def update_object_def Let_def
           split: handler.splits prod.splits)

lemma answer_eq:
  "answer a m s =
     (case processMessage (objects s a) of
        ProcessAgentMessage \<Rightarrow>
          Returns \<lparr>success = True,
                   response = Some ((case name (objects s a) of None \<Rightarrow> ''undefined'' | Some n \<Rightarrow> n)
                                     @ '' processed message: '' @ message_type m),
                   responded_at = Some (now s),
                   approved = False, reason = None, error_message = None,
                   containsGoals = False, extractedGoals = []\<rparr>
      | Implementation f \<Rightarrow> f m)"
  by (simp add: answer_def invoke_def processAgentMessage_def Let_def split: handler.splits)

lemma answer_invoke [simp]: "answer a m (snd (invoke b m' s)) = answer a m s"
  by (simp add: answer_eq invoke_objects invoke_simps split: handler.splits)

lemma answer_logger [simp]: "answer a m (logger l t d s) = answer a m s"
  by (simp add: answer_eq logger_simps split: handler.splits)

lemma answer_emergency [simp]:
  "answer a m (s\<lparr>systemState := st\<rparr>) = answer a m s"
  by (simp add: answer_eq split: handler.splits)

lemma installImplementation_simps:
  "guardian (installImplementation a f s) = guardian s"
  "blackBox (installImplementation a f s) = blackBox s"
  "studentAgent (installImplementation a f s) = studentAgent s"
  "activeAgents (installImplementation a f s) = activeAgents s"
  "agents (installImplementation a f s) = agents s"
  "systemState (installImplementation a f s) = systemState s"
  "now (installImplementation a f s) = now s"
  "calls (installImplementation a f s) = calls s"
  "loggerLevels (installImplementation a f s) = loggerLevels s"
  "processMessage (objects (installImplementation a f s) b)
     = (if b = a then Implementation f else processMessage (objects s b))"
  "name (objects (installImplementation a f s) b) = name (objects s b)"
  "priority (objects (installImplementation a f s) b) = priority (objects s b)"
  "immutable (objects (installImplementation a f s) b) = immutable (objects s b)"
  "status (objects (installImplementation a f s) b) = status (objects s b)"
  by (simp_all add: installImplementation_def update_object_def)

lemma updateStatus_objects:
  "status (objects (updateStatus a st patch s) b) = (if b = a then st else status (objects s b))"
  "priority (objects (updateStatus a st patch s) b) = priority (objects s b)"
  "immutable (objects (updateStatus a st patch s) b) = immutable (objects s b)"
  "metadata (objects (updateStatus a st patch s) a)
     = assign_metadata patch ((metadata (objects s a))\<lparr>lastActive := now s\<rparr>)"
  "guardian (updateStatus a st patch s) = guardian s"
  "blackBox (updateStatus a st patch s) = blackBox s"
  "systemState (updateStatus a st patch s) = systemState s"
  by (simp_all add: updateStatus_def Let_def emit_simps update_object_simps)

lemma call_tests:
  "isThrow (a, m, out) = (\<exists>err. out = Throws err)"
  "isAuditFailure (a, LogInteraction e, out) = (\<exists>err. out = Throws err)"
  "isCompletedDelivery (a, Deliver e, out) = (\<exists>r. out = Returns r)"
  "isApproval uuid (a, EthicalReview e, out) = (\<exists>r. out = Returns r \<and> envelope_id e = uuid \<and> approved r)"
  by (cases out; simp)+

lemma newCalls_append: "calls s' = calls s @ cs \<Longrightarrow> newCalls s s' = cs"
  by (simp add: newCalls_def)

lemma buildEnvelope_simps:
  "envelope_id (buildEnvelope uuid f t m s) = uuid"
  "to_agent (buildEnvelope uuid f t m s) = t"
  "from_agent (buildEnvelope uuid f t m s) = f"
  by (simp_all add: buildEnvelope_def)

lemma notify_simps:
  "calls (snd (notify x m s)) = calls s @ attempt x m s"
  "fst (notify x m s) =
     (case x of None \<Rightarrow> None
      | Some a \<Rightarrow> (case answer a m s of Throws e \<Rightarrow> Some e | Returns r \<Rightarrow> None))"
  "agents (snd (notify x m s)) = agents s"
  "activeAgents (snd (notify x m s)) = activeAgents s"
  "guardian (snd (notify x m s)) = guardian s"
  "blackBox (snd (notify x m s)) = blackBox s"
  "studentAgent (snd (notify x m s)) = studentAgent s"
  "systemState (snd (notify x m s)) = systemState s"
  "nextAddr (snd (notify x m s)) = nextAddr s"
  "now (snd (notify x m s)) = now s"
  "loggerLevels (snd (notify x m s)) = loggerLevels s"
  "answer a m' (snd (notify x m s)) = answer a m' s"
  by (simp_all add: notify_def attempt_def invoke_simps case_prod_beta
        split: option.splits outcome.splits)

lemma notify_throws: "fst (notify x m s) = None \<longleftrightarrow> \<not> list_ex isThrow (attempt x m s)"
  by (simp add: notify_simps attempt_def call_tests split: option.splits outcome.splits)

lemma attempt_after_notify: "attempt x m (snd (notify y m' s)) = attempt x m s"
  by (simp add: attempt_def notify_simps split: option.splits)

lemma untilThrow_append:
  "untilThrow (xs @ ys) = (if list_ex isThrow xs then untilThrow xs else xs @ untilThrow ys)"
  by (induction xs) auto

lemma untilThrow_attempt: "untilThrow (attempt x m s) = attempt x m s"
  by (simp add: attempt_def split: option.splits)

subsection \<open>The calls of a routing\<close>

text \<open>The calls of the second half of routeMessage.\<close>

lemma logAndDeliver_calls:
  "calls (snd (logAndDeliver e s)) = calls s @ loggingAndDelivery e s"
  by (simp add: logAndDeliver_def routingFailed_def notify_simps logger_simps invoke_simps
        case_prod_beta attempt_def call_tests loggingAndDelivery_def
        split: option.splits outcome.splits)

lemma logAndDeliver_frame:
  "guardian (snd (logAndDeliver e s)) = guardian s"
  "blackBox (snd (logAndDeliver e s)) = blackBox s"
  "activeAgents (snd (logAndDeliver e s)) = activeAgents s"
  "loggerLevels (snd (logAndDeliver e s)) = loggerLevels s"
  by (simp_all add: logAndDeliver_def routingFailed_def notify_simps logger_simps invoke_simps
        case_prod_beta split: option.splits outcome.splits)

lemma logAndDeliver_systemState:
  "systemState (snd (logAndDeliver e s)) =
     (if list_ex isCompletedDelivery (loggingAndDelivery e s)
      then (systemState s)\<lparr>totalInteractions := totalInteractions (systemState s) + 1\<rparr>
      else systemState s)"
  by (simp add: logAndDeliver_def routingFailed_def notify_simps logger_simps invoke_simps
        case_prod_beta attempt_def call_tests loggingAndDelivery_def
        split: option.splits outcome.splits)

text \<open>Facts about the calls of logging and delivery.\<close>

lemma loggingAndDelivery_cases:
  obtains (no_target) "loggingAndDelivery e s = attempt (blackBox s) (LogInteraction e) s"
      and "\<not> list_ex isCompletedDelivery (loggingAndDelivery e s)"
      and "\<not> list_ex (isDelivery uuid) (loggingAndDelivery e s)"
      and "list_ex isAuditFailure (loggingAndDelivery e s)
           \<or> map_of (activeAgents s) (to_agent e) = None"
  | (target) a out where "map_of (activeAgents s) (to_agent e) = Some a"
      and "loggingAndDelivery e s = attempt (blackBox s) (LogInteraction e) s @ [(a, Deliver e, out)]"
      and "\<not> list_ex isThrow (attempt (blackBox s) (LogInteraction e) s)"
      and "\<not> list_ex isAuditFailure (loggingAndDelivery e s)"
proof (cases "map_of (activeAgents s) (to_agent e)")
  case None
  then show ?thesis
    by (intro no_target)
       (auto simp: loggingAndDelivery_def attempt_def call_tests split: option.splits)
next
  case (Some a)
  show ?thesis
  proof (cases "list_ex isThrow (attempt (blackBox s) (LogInteraction e) s)")
    case True
    then show ?thesis
      by (intro no_target)
         (auto simp: loggingAndDelivery_def attempt_def call_tests Some split: option.splits)
  next
    case False
    then show ?thesis
      by (intro target [of a "answer a (Deliver e) s"])
         (auto simp: loggingAndDelivery_def attempt_def call_tests Some split: option.splits)
  qed
qed

lemma attempt_log_tests:
  "\<not> list_ex (isApproval uuid) (attempt x (LogInteraction e) s)"
  "\<not> list_ex (isDelivery uuid) (attempt x (LogInteraction e) s)"
  "\<not> list_ex isCompletedDelivery (attempt x (LogInteraction e) s)"
  "length (auditRecords uuid (attempt x (LogInteraction e) s))
     = (if x \<noteq> None \<and> envelope_id e = uuid then 1 else 0)"
  "list_all (\<lambda>c. callEnvelope c = Some e) (attempt x (LogInteraction e) s)"
  by (simp_all add: attempt_def auditRecords_def split: option.splits)

lemma loggingAndDelivery_no_approval:
  "\<not> list_ex (isApproval uuid) (loggingAndDelivery e s)"
  by (cases rule: loggingAndDelivery_cases [of e s uuid]) (simp_all add: attempt_log_tests)

lemma loggingAndDelivery_audits:
  "length (auditRecords uuid (loggingAndDelivery e s))
     = (if blackBox s \<noteq> None \<and> envelope_id e = uuid then 1 else 0)"
proof (cases rule: loggingAndDelivery_cases [of e s uuid])
  case no_target
  then show ?thesis by (simp add: attempt_log_tests)
next
  case (target a out)
  have "auditRecords uuid (loggingAndDelivery e s)
          = auditRecords uuid (attempt (blackBox s) (LogInteraction e) s)"
    by (simp add: target(2) auditRecords_def)
  then show ?thesis by (simp add: attempt_log_tests)
qed

lemma loggingAndDelivery_envelope:
  "list_all (\<lambda>c. callEnvelope c = Some e) (loggingAndDelivery e s)"
  by (cases rule: loggingAndDelivery_cases [of e s uuid]) (simp_all add: attempt_log_tests)

lemma loggingAndDelivery_delivered:
  "list_ex (isDelivery uuid) (loggingAndDelivery e s) \<longleftrightarrow>
     envelope_id e = uuid \<and> \<not> list_ex isAuditFailure (loggingAndDelivery e s)
     \<and> map_of (activeAgents s) (to_agent e) \<noteq> None"
proof (cases rule: loggingAndDelivery_cases [of e s uuid])
  case no_target
  then show ?thesis by auto
next
  case (target a out)
  then show ?thesis by (simp add: attempt_log_tests)
qed

lemma loggingAndDelivery_receivers:
  "receivers (filter (isDelivery uuid) (loggingAndDelivery e s)) =
     (if list_ex (isDelivery uuid) (loggingAndDelivery e s)
      then (case map_of (activeAgents s) (to_agent e) of None \<Rightarrow> [] | Some a \<Rightarrow> [a])
      else [])"
proof (cases rule: loggingAndDelivery_cases [of e s uuid])
  case no_target
  have "filter (isDelivery uuid) (attempt (blackBox s) (LogInteraction e) s) = []"
    by (simp add: attempt_def split: option.splits)
  with no_target show ?thesis by (simp add: receivers_def)
next
  case (target a out)
  have "filter (isDelivery uuid) (attempt (blackBox s) (LogInteraction e) s) = []"
    by (simp add: attempt_def split: option.splits)
  with target show ?thesis by (simp add: receivers_def attempt_log_tests)
qed

lemma loggingAndDelivery_completed:
  "list_ex isCompletedDelivery (loggingAndDelivery e s) \<Longrightarrow>
     \<not> list_ex isThrow (loggingAndDelivery e s)
     \<and> map_of (activeAgents s) (to_agent e) \<noteq> None"
proof (cases rule: loggingAndDelivery_cases [of e s uuid])
  case no_target
  assume "list_ex isCompletedDelivery (loggingAndDelivery e s)"
  with no_target show ?thesis by simp
next
  case (target a out)
  assume "list_ex isCompletedDelivery (loggingAndDelivery e s)"
  with target show ?thesis by (auto simp: attempt_log_tests call_tests)
qed

text \<open>The calls of routeMessage, in full: with a Guardian in place (and another
  sender) the review, followed by logging and delivery if it approved.\<close>

lemma routeMessage_unreviewed:
  assumes "fromAgentId = ''guardian'' \<or> guardian s = None"
  shows "routeMessage uuid fromAgentId toAgentId msg s
           = logAndDeliver (buildEnvelope uuid fromAgentId toAgentId msg s) s"
  using assms by (auto simp: routeMessage_def Let_def)

lemma routeMessage_reviewed:
  assumes "fromAgentId \<noteq> ''guardian''" and "guardian s = Some g"
  shows "routeMessage uuid fromAgentId toAgentId msg s =
     (let e = buildEnvelope uuid fromAgentId toAgentId msg s;
          s1 = snd (invoke g (EthicalReview e) s)
      in case answer g (EthicalReview e) s of
           Throws err \<Rightarrow> routingFailed err s1
         | Returns r \<Rightarrow>
             if approved r
             then logAndDeliver (e\<lparr>env_metadata := (env_metadata e)\<lparr>ethicalReview := True\<rparr>\<rparr>) s1
             else (failure\<lparr>reason := reason r\<rparr>,
                   logger ''warn''
                     (''Message blocked by Guardian: ''
                        @ (case reason r of None \<Rightarrow> ''undefined'' | Some x \<Rightarrow> x)) None s1))"
  using assms
  by (simp add: routeMessage_def Let_def case_prod_beta invoke_simps split: outcome.splits)

lemma loggingAndDelivery_after_invoke:
  "loggingAndDelivery e (snd (invoke a m s)) = loggingAndDelivery e s"
  by (simp add: loggingAndDelivery_def attempt_def invoke_simps split: option.splits)

lemma routeMessage_cases:
  fixes uuid fromAgentId toAgentId msg s
  defines "e \<equiv> buildEnvelope uuid fromAgentId toAgentId msg s"
    and "s' \<equiv> snd (routeMessage uuid fromAgentId toAgentId msg s)"
  obtains
    (skipped) "fromAgentId = ''guardian'' \<or> guardian s = None"
      and "newCalls s s' = loggingAndDelivery e s"
      and "systemState s' =
             (if list_ex isCompletedDelivery (loggingAndDelivery e s)
              then (systemState s)\<lparr>totalInteractions := totalInteractions (systemState s) + 1\<rparr>
              else systemState s)"
  | (blocked) g out where "fromAgentId \<noteq> ''guardian''" and "guardian s = Some g"
      and "newCalls s s' = [(g, EthicalReview e, out)]"
      and "\<not> isApproval uuid (g, EthicalReview e, out)"
      and "systemState s' = systemState s"
  | (approved) g r e' where "fromAgentId \<noteq> ''guardian''" and "guardian s = Some g"
      and "approved r"
      and "e' = e\<lparr>env_metadata := (env_metadata e)\<lparr>ethicalReview := True\<rparr>\<rparr>"
      and "newCalls s s' = (g, EthicalReview e, Returns r) # loggingAndDelivery e' s"
      and "systemState s' =
             (if list_ex isCompletedDelivery (loggingAndDelivery e' s)
              then (systemState s)\<lparr>totalInteractions := totalInteractions (systemState s) + 1\<rparr>
              else systemState s)"
proof (cases "fromAgentId = ''guardian'' \<or> guardian s = None")
  case True
  have c: "newCalls s s' = loggingAndDelivery e s"
    unfolding s'_def e_def routeMessage_unreviewed [OF True]
    by (rule newCalls_append) (rule logAndDeliver_calls)
  have "systemState s' =
             (if list_ex isCompletedDelivery (loggingAndDelivery e s)
              then (systemState s)\<lparr>totalInteractions := totalInteractions (systemState s) + 1\<rparr>
              else systemState s)"
    unfolding s'_def e_def routeMessage_unreviewed [OF True]
    by (rule logAndDeliver_systemState)
  with True c show ?thesis by (rule skipped)
next
  case False
  then obtain g where g: "fromAgentId \<noteq> ''guardian''" "guardian s = Some g" by auto
  note eq = routeMessage_reviewed [OF g, of uuid toAgentId msg, folded e_def]
  let ?s1 = "snd (invoke g (EthicalReview e) s)"
  show ?thesis
  proof (cases "answer g (EthicalReview e) s")
    case (Throws err)
    have "s' = snd (routingFailed err ?s1)"
      by (simp add: s'_def eq Let_def Throws)
    then have "newCalls s s' = [(g, EthicalReview e, Throws err)]" "systemState s' = systemState s"
      by (simp_all add: routingFailed_def logger_simps invoke_simps Throws newCalls_def)
    then show ?thesis using g by (intro blocked [of g "Throws err"]) simp_all
  next
    case (Returns r)
    show ?thesis
    proof (cases "approved r")
      case False
      have "s' = logger ''warn''
                     (''Message blocked by Guardian: ''
                        @ (case reason r of None \<Rightarrow> ''undefined'' | Some x \<Rightarrow> x)) None ?s1"
        by (simp add: s'_def eq Let_def Returns False)
      then have "newCalls s s' = [(g, EthicalReview e, Returns r)]" "systemState s' = systemState s"
        by (simp_all add: logger_simps invoke_simps Returns newCalls_def)
      then show ?thesis using g False by (intro blocked [of g "Returns r"]) simp_all
    next
      case True
      define e' where "e' = e\<lparr>env_metadata := (env_metadata e)\<lparr>ethicalReview := True\<rparr>\<rparr>"
      have s': "s' = snd (logAndDeliver e' ?s1)"
        by (simp add: s'_def eq Let_def Returns True e'_def)
      have "calls s' = calls s @ (g, EthicalReview e, Returns r) # loggingAndDelivery e' s"
        by (simp add: s' logAndDeliver_calls invoke_simps Returns loggingAndDelivery_after_invoke)
      then have "newCalls s s' = (g, EthicalReview e, Returns r) # loggingAndDelivery e' s"
        by (rule newCalls_append)
      moreover have "systemState s' =
             (if list_ex isCompletedDelivery (loggingAndDelivery e' s)
              then (systemState s)\<lparr>totalInteractions := totalInteractions (systemState s) + 1\<rparr>
              else systemState s)"
        by (simp add: s' logAndDeliver_systemState invoke_simps loggingAndDelivery_after_invoke)
      ultimately show ?thesis using g True e'_def by (intro approved [of g r e']) simp_all
    qed
  qed
qed

lemma routeMessage_trace:
  "newCalls s (snd (routeMessage uuid f t m s)) =
     (let e = buildEnvelope uuid f t m s;
          e' = e\<lparr>env_metadata := (env_metadata e)\<lparr>ethicalReview := True\<rparr>\<rparr>
      in case (if f \<noteq> ''guardian'' then guardian s else None) of
           None \<Rightarrow> loggingAndDelivery e s
         | Some g \<Rightarrow>
             (g, EthicalReview e, answer g (EthicalReview e) s) #
             (case answer g (EthicalReview e) s of
                Throws err \<Rightarrow> []
              | Returns r \<Rightarrow> if approved r then loggingAndDelivery e' s else []))"
proof (cases "f = ''guardian'' \<or> guardian s = None")
  case True
  have "newCalls s (snd (routeMessage uuid f t m s)) = loggingAndDelivery (buildEnvelope uuid f t m s) s"
    unfolding routeMessage_unreviewed [OF True]
    by (rule newCalls_append) (rule logAndDeliver_calls)
  with True show ?thesis by (auto simp: Let_def)
next
  case False
  then obtain g where g: "f \<noteq> ''guardian''" "guardian s = Some g" by auto
  let ?e = "buildEnvelope uuid f t m s"
  show ?thesis
  proof (cases "answer g (EthicalReview ?e) s")
    case (Throws err)
    then show ?thesis
      by (simp add: routeMessage_reviewed [OF g] Let_def g newCalls_def routingFailed_def
            logger_simps invoke_simps)
  next
    case (Returns r)
    then show ?thesis
      by (simp add: routeMessage_reviewed [OF g] Let_def g newCalls_def
            logger_simps invoke_simps logAndDeliver_calls loggingAndDelivery_after_invoke)
  qed
qed

lemma routeMessage_rejected_response:
  assumes "f \<noteq> ''guardian''" and "guardian s = Some g"
    and "answer g (EthicalReview (buildEnvelope uuid f t m s)) s = Returns r" and "\<not> approved r"
  shows "fst (routeMessage uuid f t m s) = failure\<lparr>reason := reason r\<rparr>"
  using assms(3,4) by (simp add: routeMessage_reviewed [OF assms(1,2)] Let_def)

subsection \<open>Creation and start-up\<close>

lemma createAgent_None: "createAgent agentId None s
  = (Inl (TypeError ''Cannot read properties of undefined (reading id)''), s)"
  by (simp add: createAgent_def)

lemma createAgent_simps:
  "fst (createAgent k (Some c) s) = Inr (nextAddr s)"
  "agents (snd (createAgent k (Some c) s)) = AList.update k (nextAddr s) (agents s)"
  "activeAgents (snd (createAgent k (Some c) s)) = activeAgents s"
  "isInitialized (snd (createAgent k (Some c) s)) = isInitialized s"
  "guardian (snd (createAgent k (Some c) s)) = guardian s"
  "blackBox (snd (createAgent k (Some c) s)) = blackBox s"
  "studentAgent (snd (createAgent k (Some c) s)) = studentAgent s"
  "systemState (snd (createAgent k (Some c) s)) = systemState s"
  "nextAddr (snd (createAgent k (Some c) s)) = Suc (nextAddr s)"
  "now (snd (createAgent k (Some c) s)) = now s"
  "calls (snd (createAgent k (Some c) s)) = calls s"
  "logs (snd (createAgent k (Some c) s)) = logs s"
  "loggerLevels (snd (createAgent k (Some c) s)) = loggerLevels s"
  "b \<noteq> nextAddr s \<Longrightarrow> objects (snd (createAgent k (Some c) s)) b = objects s b"
  "name (objects (snd (createAgent k (Some c) s)) b)
     = (if b = nextAddr s then config_name c else name (objects s b))"
  "status (objects (snd (createAgent k (Some c) s)) b)
     = (if b = nextAddr s then ''active'' else status (objects s b))"
  "immutable (objects (snd (createAgent k (Some c) s)) b)
     = (if b = nextAddr s then None else immutable (objects s b))"
  "processMessage (objects (snd (createAgent k (Some c) s)) b)
     = (if b = nextAddr s then ProcessAgentMessage else processMessage (objects s b))"
  "priority (objects (snd (createAgent k (Some c) s)) b)
     = (if b = nextAddr s
        then (case config_priority c of None \<Rightarrow> 5 | Some p \<Rightarrow> if p = 0 then 5 else p)
        else priority (objects s b))"
  by (simp_all add: createAgent_def Let_def)

lemma createAgent_systemState:
  "systemState (snd (createAgent k cfg s)) = systemState s"
  by (cases cfg) (simp_all add: createAgent_None createAgent_simps)

lemma small_steps:
  "setupCommunicationChannels s = logger ''info'' ''Communication channels established'' None s"
  "agents (startHealthMonitoring s) = agents s"
  "activeAgents (startHealthMonitoring s) = activeAgents s"
  "guardian (startHealthMonitoring s) = guardian s"
  "blackBox (startHealthMonitoring s) = blackBox s"
  "studentAgent (startHealthMonitoring s) = studentAgent s"
  "systemState (startHealthMonitoring s) = systemState s"
  "objects (startHealthMonitoring s) = objects s"
  "nextAddr (startHealthMonitoring s) = nextAddr s"
  "now (startHealthMonitoring s) = now s"
  "calls (startHealthMonitoring s) = calls s"
  "logs (startHealthMonitoring s) = logs s"
  "loggerLevels (startHealthMonitoring s) = loggerLevels s"
  by (simp_all add: setupCommunicationChannels_def startHealthMonitoring_def)

lemma constructor_fields:
  "nextAddr (constructor t) = 0" "now (constructor t) = t"
  "activeAgents (constructor t) = []" "agents (constructor t) = []"
  "calls (constructor t) = []" "loggerLevels (constructor t) = setupLogger"
  "guardian (constructor t) = None" "blackBox (constructor t) = None"
  "studentAgent (constructor t) = None" "logs (constructor t) = []"
  "systemState (constructor t) = \<lparr>state_status = ''initializing'', lastHealthCheck = None,
                      activeConnections = 0, totalInteractions = 0, emergencyMode = False\<rparr>"
  by (simp_all add: constructor_def)

lemma initializeDepartments_Cons:
  "initializeDepartments ((k, None) # rest) s =
     initializeDepartments rest
       (logger ''error'' (''Failed to initialize '' @ k @ '' agent:'')
          (Some ''Cannot read properties of undefined (reading id)'') s)"
  "initializeDepartments ((k, Some c) # rest) s =
     initializeDepartments rest
       (logger ''info''
          (''Departmental agent '' @ [CHR 0x27]
             @ (case config_name c of None \<Rightarrow> ''undefined'' | Some n \<Rightarrow> n)
             @ [CHR 0x27] @ '' initialized'')
          None
          (snd (createAgent k (Some c) s)
             \<lparr>activeAgents := AList.update k (nextAddr s) (activeAgents s)\<rparr>))"
  by (simp_all add: createAgent_None case_prod_beta createAgent_simps)

lemma initializeDepartments_frame:
  "guardian (initializeDepartments ds s) = guardian s
   \<and> blackBox (initializeDepartments ds s) = blackBox s
   \<and> studentAgent (initializeDepartments ds s) = studentAgent s
   \<and> systemState (initializeDepartments ds s) = systemState s
   \<and> now (initializeDepartments ds s) = now s
   \<and> calls (initializeDepartments ds s) = calls s
   \<and> loggerLevels (initializeDepartments ds s) = loggerLevels s
   \<and> nextAddr (initializeDepartments ds s)
        = nextAddr s + length (filter (\<lambda>(d, c). c \<noteq> None) ds)
   \<and> fst ` set (activeAgents (initializeDepartments ds s))
        = fst ` set (activeAgents s) \<union> fst ` set (filter (\<lambda>(d, c). c \<noteq> None) ds)
   \<and> logs (initializeDepartments ds s)
        = logs s @ map (\<lambda>(d, c). case c of
                          None \<Rightarrow> (''error'', ''Failed to initialize '' @ d @ '' agent:'',
                                   Some ''Cannot read properties of undefined (reading id)'')
                        | Some cfg \<Rightarrow> (''info'',
                                   ''Departmental agent '' @ [CHR 0x27]
                                     @ (case config_name cfg of None \<Rightarrow> ''undefined'' | Some n \<Rightarrow> n)
                                     @ [CHR 0x27] @ '' initialized'', None)) ds"
proof (induction ds arbitrary: s)
  case Nil
  show ?case by simp
next
  case (Cons d ds)
  obtain k c where d: "d = (k, c)" by (cases d)
  show ?case
  proof (cases c)
    case None
    show ?thesis
      unfolding d None initializeDepartments_Cons
      by (simp add: Cons.IH logger_simps)
  next
    case (Some cfg)
    show ?thesis
      unfolding d Some initializeDepartments_Cons
      by (simp add: Cons.IH logger_simps createAgent_simps dom_update Un_assoc)
  qed
qed

lemma initializeDepartments_objects:
  "a < nextAddr s \<Longrightarrow> objects (initializeDepartments ds s) a = objects s a"
proof (induction ds arbitrary: s)
  case Nil
  show ?case by simp
next
  case (Cons d ds)
  obtain k c where d: "d = (k, c)" by (cases d)
  show ?case
  proof (cases c)
    case None
    show ?thesis
      unfolding d None initializeDepartments_Cons
      using Cons.prems by (subst Cons.IH) (simp_all add: logger_simps)
  next
    case (Some cfg)
    show ?thesis
      unfolding d Some initializeDepartments_Cons
      using Cons.prems by (subst Cons.IH) (simp_all add: logger_simps createAgent_simps)
  qed
qed

lemma initializeDepartments_active:
  "k \<notin> fst ` set ds \<Longrightarrow>
     map_of (activeAgents (initializeDepartments ds s)) k = map_of (activeAgents s) k"
proof (induction ds arbitrary: s)
  case Nil
  show ?case by simp
next
  case (Cons d ds)
  obtain k' c where d: "d = (k', c)" by (cases d)
  show ?case
  proof (cases c)
    case None
    show ?thesis
      unfolding d None initializeDepartments_Cons
      using Cons.prems by (subst Cons.IH) (simp_all add: logger_simps)
  next
    case (Some cfg)
    show ?thesis
      unfolding d Some initializeDepartments_Cons
      using Cons.prems
      by (subst Cons.IH) (auto simp: logger_simps createAgent_simps update_conv' d)
  qed
qed

lemma initializeImmutableAgents_ok:
  assumes "registry_guardian reg = Some cg" and "registry_blackBox reg = Some cb"
  shows "fst (initializeImmutableAgents reg s) = Inr ()
   \<and> guardian (snd (initializeImmutableAgents reg s)) = Some (nextAddr s)
   \<and> blackBox (snd (initializeImmutableAgents reg s)) = Some (Suc (nextAddr s))
   \<and> studentAgent (snd (initializeImmutableAgents reg s)) = studentAgent s
   \<and> systemState (snd (initializeImmutableAgents reg s)) = systemState s
   \<and> nextAddr (snd (initializeImmutableAgents reg s)) = Suc (Suc (nextAddr s))
   \<and> loggerLevels (snd (initializeImmutableAgents reg s)) = loggerLevels s
   \<and> calls (snd (initializeImmutableAgents reg s)) = calls s
   \<and> logs (snd (initializeImmutableAgents reg s))
        = logs s @ [(''info'', ''Immutable agents initialized successfully'', None)]
   \<and> activeAgents (snd (initializeImmutableAgents reg s))
        = AList.update ''blackBox'' (Suc (nextAddr s))
            (AList.update ''guardian'' (nextAddr s) (activeAgents s))
   \<and> priority (objects (snd (initializeImmutableAgents reg s)) (nextAddr s)) = 0
   \<and> immutable (objects (snd (initializeImmutableAgents reg s)) (nextAddr s)) = Some True
   \<and> priority (objects (snd (initializeImmutableAgents reg s)) (Suc (nextAddr s))) = 0
   \<and> immutable (objects (snd (initializeImmutableAgents reg s)) (Suc (nextAddr s))) = Some True"
  by (simp add: initializeImmutableAgents_def assms Let_def case_prod_beta createAgent_simps
        update_object_simps logger_simps)

lemma initializeImmutableAgents_fails:
  assumes "registry_guardian reg = None \<or> registry_blackBox reg = None"
  shows "(\<exists>e. fst (initializeImmutableAgents reg s) = Inl e)
   \<and> systemState (snd (initializeImmutableAgents reg s)) = systemState s"
proof (cases "registry_guardian reg")
  case None
  then show ?thesis
    by (simp add: initializeImmutableAgents_def createAgent_None logger_simps)
next
  case (Some cg)
  with assms have "registry_blackBox reg = None" by simp
  with Some show ?thesis
    by (simp add: initializeImmutableAgents_def Let_def case_prod_beta createAgent_None
          createAgent_simps update_object_simps logger_simps)
qed

lemma initializeStudentAgent_ok:
  assumes "registry_agentricAI reg = Some c"
  shows "fst (initializeStudentAgent reg s) = Inr ()
   \<and> studentAgent (snd (initializeStudentAgent reg s)) = Some (nextAddr s)
   \<and> guardian (snd (initializeStudentAgent reg s)) = guardian s
   \<and> blackBox (snd (initializeStudentAgent reg s)) = blackBox s
   \<and> systemState (snd (initializeStudentAgent reg s)) = systemState s
   \<and> nextAddr (snd (initializeStudentAgent reg s)) = Suc (nextAddr s)
   \<and> loggerLevels (snd (initializeStudentAgent reg s)) = loggerLevels s
   \<and> calls (snd (initializeStudentAgent reg s)) = calls s
   \<and> logs (snd (initializeStudentAgent reg s))
        = logs s @ [(''info'', ''Student-facing agent initialized successfully'', None)]
   \<and> activeAgents (snd (initializeStudentAgent reg s))
        = AList.update ''agentricAI'' (nextAddr s) (activeAgents s)
   \<and> name (objects (snd (initializeStudentAgent reg s)) (nextAddr s)) = config_name c
   \<and> isStudentFacing (objects (snd (initializeStudentAgent reg s)) (nextAddr s)) = Some True
   \<and> (\<forall>a. a \<noteq> nextAddr s \<longrightarrow>
          objects (snd (initializeStudentAgent reg s)) a = objects s a)"
  by (simp add: initializeStudentAgent_def assms Let_def case_prod_beta createAgent_simps
        update_object_simps logger_simps)

lemma initializeStudentAgent_fails:
  assumes "registry_agentricAI reg = None"
  shows "(\<exists>e. fst (initializeStudentAgent reg s) = Inl e)
   \<and> systemState (snd (initializeStudentAgent reg s)) = systemState s"
  by (simp add: initializeStudentAgent_def assms createAgent_None logger_simps)

lemma initializeFailed_simps:
  "fst (initializeFailed e s) = Inl e"
  "systemState (snd (initializeFailed e s)) = (systemState s)\<lparr>state_status := ''error''\<rparr>"
  by (simp_all add: initializeFailed_def Let_def emit_simps logger_simps)

lemma initialize_steps:
  fixes reg s ds
  defines "s1 \<equiv> snd (initializeImmutableAgents reg
                         (logger ''info'' ''Initializing AgentricAI University Orchestrator'' None s))"
  defines "s2 \<equiv> initializeDepartments ds s1"
  defines "s3 \<equiv> snd (initializeStudentAgent reg s2)"
  assumes "registry_guardian reg = Some cg" and "registry_blackBox reg = Some cb"
    and "departmentalAgents reg = Some ds" and "registry_agentricAI reg = Some cs"
  shows "fst (initialize reg s) = Inr ()"
    and "systemState (snd (initialize reg s)) = (systemState s)\<lparr>state_status := ''operational''\<rparr>"
    and "guardian (snd (initialize reg s)) = guardian s3"
    and "blackBox (snd (initialize reg s)) = blackBox s3"
    and "studentAgent (snd (initialize reg s)) = studentAgent s3"
    and "activeAgents (snd (initialize reg s)) = activeAgents s3"
    and "objects (snd (initialize reg s)) = objects s3"
    and "nextAddr (snd (initialize reg s)) = nextAddr s3"
    and "logs (snd (initialize reg s))
           = logs s3 @ [(''info'', ''Communication channels established'', None),
                        (''info'', ''Orchestrator successfully initialized'', None)]"
proof -
  note imm = initializeImmutableAgents_ok [OF assms(4,5)]
  note stu = initializeStudentAgent_ok [OF assms(7)]
  have eq: "initialize reg s =
     (let s4 = startHealthMonitoring (setupCommunicationChannels s3);
          s5 = s4\<lparr>isInitialized := True,
                  systemState := (systemState s4)\<lparr>state_status := ''operational''\<rparr>\<rparr>
      in (Inr (), emit SystemReady
                    (logger ''info'' ''Orchestrator successfully initialized'' None s5)))"
    unfolding initialize_def s3_def s2_def s1_def
    by (simp add: case_prod_beta imm stu initializeDepartmentalAgents_def assms(6))
  have st: "systemState s3 = systemState s"
    unfolding s3_def s2_def s1_def
    by (simp add: stu imm initializeDepartments_frame logger_simps)
  show "fst (initialize reg s) = Inr ()" by (simp add: eq Let_def)
  show "systemState (snd (initialize reg s)) = (systemState s)\<lparr>state_status := ''operational''\<rparr>"
    by (simp add: eq Let_def emit_simps logger_simps small_steps st)
  show "guardian (snd (initialize reg s)) = guardian s3"
    by (simp add: eq Let_def emit_simps logger_simps small_steps)
  show "blackBox (snd (initialize reg s)) = blackBox s3"
    by (simp add: eq Let_def emit_simps logger_simps small_steps)
  show "studentAgent (snd (initialize reg s)) = studentAgent s3"
    by (simp add: eq Let_def emit_simps logger_simps small_steps)
  show "activeAgents (snd (initialize reg s)) = activeAgents s3"
    by (simp add: eq Let_def emit_simps logger_simps small_steps)
  show "objects (snd (initialize reg s)) = objects s3"
    by (simp add: eq Let_def emit_simps logger_simps small_steps)
  show "nextAddr (snd (initialize reg s)) = nextAddr s3"
    by (simp add: eq Let_def emit_simps logger_simps small_steps)
  show "logs (snd (initialize reg s))
           = logs s3 @ [(''info'', ''Communication channels established'', None),
                        (''info'', ''Orchestrator successfully initialized'', None)]"
    by (simp add: eq Let_def emit_def logger_simps small_steps)
qed

lemma initialize_fails:
  assumes "registry_guardian reg = None \<or> registry_blackBox reg = None
           \<or> departmentalAgents reg = None \<or> registry_agentricAI reg = None"
  shows "(\<exists>e. fst (initialize reg s) = Inl e)
         \<and> state_status (systemState (snd (initialize reg s))) = ''error''"
proof (cases "registry_guardian reg = None \<or> registry_blackBox reg = None")
  case True
  from initializeImmutableAgents_fails [OF True]
  obtain e where "fst (initializeImmutableAgents reg
        (logger ''info'' ''Initializing AgentricAI University Orchestrator'' None s)) = Inl e"
    by blast
  then show ?thesis
    by (simp add: initialize_def case_prod_beta initializeFailed_simps)
next
  case False
  then obtain cg cb where imm: "registry_guardian reg = Some cg" "registry_blackBox reg = Some cb"
    by auto
  note ok = initializeImmutableAgents_ok [OF imm]
  show ?thesis
  proof (cases "departmentalAgents reg")
    case None
    then show ?thesis
      by (simp add: initialize_def case_prod_beta ok initializeDepartmentalAgents_def
            initializeFailed_simps)
  next
    case (Some ds)
    with assms imm have "registry_agentricAI reg = None" by auto
    from initializeStudentAgent_fails [OF this]
    obtain e where "fst (initializeStudentAgent reg
        (initializeDepartments ds (snd (initializeImmutableAgents reg
        (logger ''info'' ''Initializing AgentricAI University Orchestrator'' None s))))) = Inl e"
      by blast
    then show ?thesis
      by (simp add: initialize_def case_prod_beta ok initializeDepartmentalAgents_def Some
            initializeFailed_simps)
  qed
qed

lemma initialize_parts_systemState:
  "systemState (snd (initializeImmutableAgents reg s)) = systemState s"
  "systemState (snd (initializeDepartmentalAgents reg s)) = systemState s"
  "systemState (snd (initializeStudentAgent reg s)) = systemState s"
proof -
  show "systemState (snd (initializeImmutableAgents reg s)) = systemState s"
  proof (cases "registry_guardian reg = None \<or> registry_blackBox reg = None")
    case True
    then show ?thesis by (simp add: initializeImmutableAgents_fails)
  next
    case False
    then obtain cg cb where "registry_guardian reg = Some cg" "registry_blackBox reg = Some cb"
      by auto
    then show ?thesis by (simp add: initializeImmutableAgents_ok)
  qed
  show "systemState (snd (initializeDepartmentalAgents reg s)) = systemState s"
    by (simp add: initializeDepartmentalAgents_def initializeDepartments_frame split: option.splits)
  show "systemState (snd (initializeStudentAgent reg s)) = systemState s"
    by (cases "registry_agentricAI reg")
       (simp_all add: initializeStudentAgent_fails initializeStudentAgent_ok)
qed

subsection \<open>Emergencies\<close>

lemma handleEmergency_without_critical:
  "''critical'' \<notin> set (loggerLevels s) \<Longrightarrow>
     handleEmergency t d s = (Inl (TypeError ''this.logger.critical is not a function''), s)"
  by (simp add: handleEmergency_def)

lemma handleEmergency_systemState:
  assumes "''critical'' \<in> set (loggerLevels s)"
  shows "systemState (snd (handleEmergency t d s)) = (systemState s)\<lparr>emergencyMode := True\<rparr>"
  using assms
  by (simp add: handleEmergency_def Let_def case_prod_beta notify_simps logger_simps emit_simps
        split: option.splits)

text \<open>handleEmergency as a chain of three notifications.\<close>

lemma handleEmergency_chain:
  fixes t d s
  defines "s2 \<equiv> (logger ''critical'' (''Emergency detected: '' @ t) (Some d) s)
                   \<lparr>systemState := (systemState s)\<lparr>emergencyMode := True\<rparr>\<rparr>"
  defines "n1 \<equiv> notify (guardian s) (EmergencyProtocol t d (now s)) s2"
  defines "n2 \<equiv> notify (map_of (activeAgents s) ''counseling'') (SystemEmergency t d (now s)) (snd n1)"
  defines "n3 \<equiv> notify (map_of (activeAgents s) ''principal'') (SystemEmergency t d (now s)) (snd n2)"
  assumes "''critical'' \<in> set (loggerLevels s)"
  shows "handleEmergency t d s =
     (case fst n1 of
        Some e \<Rightarrow> (Inl e, snd n1)
      | None \<Rightarrow>
         (case fst n2 of
            Some e \<Rightarrow> (Inl e, snd n2)
          | None \<Rightarrow>
             (case fst n3 of
                Some e \<Rightarrow> (Inl e, snd n3)
              | None \<Rightarrow> (Inr (), emit (SystemEmergencyEvent t d) (snd n3)))))"
  unfolding n3_def n2_def n1_def s2_def
  using assms(5)
  by (simp add: handleEmergency_def Let_def case_prod_beta notify_simps logger_simps
        split: option.splits)

lemma handleEmergency_calls:
  assumes "''critical'' \<in> set (loggerLevels s)"
  shows "calls (snd (handleEmergency t d s)) =
     calls s @ untilThrow (attempt (guardian s) (EmergencyProtocol t d (now s)) s
                 @ attempt (map_of (activeAgents s) ''counseling'') (SystemEmergency t d (now s)) s
                 @ attempt (map_of (activeAgents s) ''principal'') (SystemEmergency t d (now s)) s)"
    and "fst (handleEmergency t d s) = Inr () \<longleftrightarrow>
           \<not> list_ex isThrow
               (attempt (guardian s) (EmergencyProtocol t d (now s)) s
                 @ attempt (map_of (activeAgents s) ''counseling'') (SystemEmergency t d (now s)) s
                 @ attempt (map_of (activeAgents s) ''principal'') (SystemEmergency t d (now s)) s)"
proof -
  define s2 where "s2 = (logger ''critical'' (''Emergency detected: '' @ t) (Some d) s)
                   \<lparr>systemState := (systemState s)\<lparr>emergencyMode := True\<rparr>\<rparr>"
  define n1 where "n1 = notify (guardian s) (EmergencyProtocol t d (now s)) s2"
  define n2 where "n2 = notify (map_of (activeAgents s) ''counseling'') (SystemEmergency t d (now s)) (snd n1)"
  define n3 where "n3 = notify (map_of (activeAgents s) ''principal'') (SystemEmergency t d (now s)) (snd n2)"
  define A1 where "A1 = attempt (guardian s) (EmergencyProtocol t d (now s)) s"
  define A2 where "A2 = attempt (map_of (activeAgents s) ''counseling'') (SystemEmergency t d (now s)) s"
  define A3 where "A3 = attempt (map_of (activeAgents s) ''principal'') (SystemEmergency t d (now s)) s"
  note chain = handleEmergency_chain [OF assms, of t d, folded s2_def, folded n1_def,
      folded n2_def, folded n3_def]
  have s2: "attempt x m s2 = attempt x m s" "calls s2 = calls s" for x m
    by (simp_all add: s2_def attempt_def logger_simps split: option.splits)
  have c1: "calls (snd n1) = calls s @ A1" and t1: "fst n1 = None \<longleftrightarrow> \<not> list_ex isThrow A1"
    by (simp_all add: n1_def A1_def notify_simps(1) notify_throws s2)
  have c2: "calls (snd n2) = calls s @ A1 @ A2" and t2: "fst n2 = None \<longleftrightarrow> \<not> list_ex isThrow A2"
    by (simp_all add: n2_def A1_def A2_def notify_simps(1) notify_throws attempt_after_notify s2 n1_def)
  have c3: "calls (snd n3) = calls s @ A1 @ A2 @ A3" and t3: "fst n3 = None \<longleftrightarrow> \<not> list_ex isThrow A3"
    by (simp_all add: n3_def A1_def A2_def A3_def notify_simps(1) notify_throws
          attempt_after_notify s2 n1_def n2_def)
  have u: "untilThrow A1 = A1" "untilThrow A2 = A2" "untilThrow A3 = A3"
    by (simp_all add: A1_def A2_def A3_def untilThrow_attempt)
  have "calls (snd (handleEmergency t d s)) = calls s @ untilThrow (A1 @ A2 @ A3)
        \<and> (fst (handleEmergency t d s) = Inr () \<longleftrightarrow> \<not> list_ex isThrow (A1 @ A2 @ A3))"
  proof (cases "fst n1")
    case (Some e)
    with t1 have "list_ex isThrow A1" by simp
    with Some show ?thesis by (simp add: chain c1 untilThrow_append u)
  next
    case None
    with t1 have n1: "\<not> list_ex isThrow A1" by simp
    show ?thesis
    proof (cases "fst n2")
      case (Some e)
      with t2 have "list_ex isThrow A2" by simp
      with Some None n1 show ?thesis by (simp add: chain c2 untilThrow_append u)
    next
      case None2: None
      with t2 have n2: "\<not> list_ex isThrow A2" by simp
      show ?thesis
      proof (cases "fst n3")
        case (Some e)
        with t3 have "list_ex isThrow A3" by simp
        with Some None None2 n1 n2 show ?thesis by (simp add: chain c3 untilThrow_append u)
      next
        case None3: None
        with t3 have "\<not> list_ex isThrow A3" by simp
        with None None2 None3 n1 n2 show ?thesis
          by (simp add: chain c3 untilThrow_append u emit_simps)
      qed
    qed
  qed
  then show "calls (snd (handleEmergency t d s)) =
     calls s @ untilThrow (attempt (guardian s) (EmergencyProtocol t d (now s)) s
                 @ attempt (map_of (activeAgents s) ''counseling'') (SystemEmergency t d (now s)) s
                 @ attempt (map_of (activeAgents s) ''principal'') (SystemEmergency t d (now s)) s)"
    and "fst (handleEmergency t d s) = Inr () \<longleftrightarrow>
           \<not> list_ex isThrow
               (attempt (guardian s) (EmergencyProtocol t d (now s)) s
                 @ attempt (map_of (activeAgents s) ''counseling'') (SystemEmergency t d (now s)) s
                 @ attempt (map_of (activeAgents s) ''principal'') (SystemEmergency t d (now s)) s)"
    unfolding A1_def A2_def A3_def by blast+
qed

subsection \<open>The example deployment\<close>

lemmas init_eval = initialize_def initializeImmutableAgents_def initializeDepartmentalAgents_def
  initializeStudentAgent_def Let_def case_prod_beta createAgent_simps update_object_simps
  logger_simps emit_simps small_steps exampleRegistry_def exampleConfig_def

lemma started_fields:
  "guardian started = Some 0"
  "blackBox started = Some (Suc 0)"
  "studentAgent started = Some 5"
  "activeAgents started = [(''guardian'', 0), (''blackBox'', Suc 0), (''principal'', 2), (''math'', 3),
                           (''counseling'', 4), (''agentricAI'', 5)]"
  "agents started = [(''guardian'', 0), (''blackBox'', Suc 0), (''principal'', 2), (''math'', 3),
                     (''counseling'', 4), (''agentricAI'', 5)]"
  "nextAddr started = 6"
  "now started = 1000"
  "calls started = []"
  "loggerLevels started = setupLogger"
  "systemState started = \<lparr>state_status = ''operational'', lastHealthCheck = None,
                             activeConnections = 0, totalInteractions = 0, emergencyMode = False\<rparr>"
  by (simp_all add: started_def init_eval constructor_fields)

lemma started_objects:
  "processMessage (objects started 0) = ProcessAgentMessage"
  "processMessage (objects started (Suc 0)) = ProcessAgentMessage"
  "processMessage (objects started 2) = ProcessAgentMessage"
  "processMessage (objects started 3) = ProcessAgentMessage"
  "processMessage (objects started 4) = ProcessAgentMessage"
  "processMessage (objects started 5) = ProcessAgentMessage"
  "priority (objects started 0) = 0" "priority (objects started (Suc 0)) = 0"
  "priority (objects started 2) = 1" "priority (objects started 3) = 3"
  "priority (objects started 4) = 4" "priority (objects started 5) = 1"
  "immutable (objects started 0) = Some True" "immutable (objects started (Suc 0)) = Some True"
  "status (objects started 0) = ''active''" "status (objects started (Suc 0)) = ''active''"
  "name (objects started 0) = Some ''The Guardian''"
  "name (objects started (Suc 0)) = Some ''The Black Box''"
  "name (objects started 2) = Some ''The Overseer''"
  "name (objects started 3) = Some ''The Mathematician''"
  "name (objects started 4) = Some ''The Listener''"
  "name (objects started 5) = Some ''AgentricAI''"
  by (simp_all add: started_def init_eval constructor_fields)

lemma unguarded_fields:
  "guardian unguarded = None"
  "blackBox unguarded = None"
  "activeAgents unguarded = [(''principal'', 0), (''math'', Suc 0), (''counseling'', 2)]"
  "now unguarded = 1000"
  "calls unguarded = []"
  "processMessage (objects unguarded (Suc 0)) = ProcessAgentMessage"
  "name (objects unguarded (Suc 0)) = Some ''The Mathematician''"
  by (simp_all add: unguarded_def init_eval constructor_fields)

lemmas route_eval = routeMessage_trace Let_def loggingAndDelivery_def attempt_def answer_eq
  buildEnvelope_def getMessagePriority_def started_fields started_objects
  installImplementation_simps failure_def approving_def failing_def auditRecords_def receivers_def

subsection \<open>The logger and the emergency flag across the operations\<close>

lemma createAgent_loggerLevels:
  "loggerLevels (snd (createAgent k cfg s)) = loggerLevels s"
  by (cases cfg) (simp_all add: createAgent_None createAgent_simps)

lemma initialize_parts_loggerLevels:
  "loggerLevels (snd (initializeImmutableAgents reg s)) = loggerLevels s"
  "loggerLevels (snd (initializeDepartmentalAgents reg s)) = loggerLevels s"
  "loggerLevels (snd (initializeStudentAgent reg s)) = loggerLevels s"
proof -
  show "loggerLevels (snd (initializeImmutableAgents reg s)) = loggerLevels s"
    by (simp add: initializeImmutableAgents_def Let_def case_prod_beta createAgent_loggerLevels
          update_object_simps logger_simps split: sum.splits)
  show "loggerLevels (snd (initializeDepartmentalAgents reg s)) = loggerLevels s"
    by (simp add: initializeDepartmentalAgents_def initializeDepartments_frame split: option.splits)
  show "loggerLevels (snd (initializeStudentAgent reg s)) = loggerLevels s"
    by (simp add: initializeStudentAgent_def Let_def case_prod_beta createAgent_loggerLevels
          update_object_simps logger_simps split: sum.splits)
qed

lemma initializeFailed_loggerLevels:
  "loggerLevels (snd (initializeFailed e s)) = loggerLevels s"
  by (simp add: initializeFailed_def Let_def emit_simps logger_simps)

lemma initialize_loggerLevels:
  "loggerLevels (snd (initialize reg s)) = loggerLevels s"
  by (simp add: initialize_def Let_def case_prod_beta initializeFailed_loggerLevels
        initialize_parts_loggerLevels emit_simps logger_simps small_steps
        split: sum.splits)

lemma routeMessage_loggerLevels:
  "loggerLevels (snd (routeMessage uuid f t m s)) = loggerLevels s"
proof (cases "f = ''guardian'' \<or> guardian s = None")
  case True
  then show ?thesis by (simp add: routeMessage_unreviewed logAndDeliver_frame)
next
  case False
  then obtain g where g: "f \<noteq> ''guardian''" "guardian s = Some g" by auto
  show ?thesis
    by (simp add: routeMessage_reviewed [OF g] Let_def routingFailed_def logger_simps
          invoke_simps logAndDeliver_frame split: outcome.splits)
qed

lemma processStudentInteraction_loggerLevels:
  "loggerLevels (snd (processStudentInteraction studentId i s)) = loggerLevels s"
proof -
  have "loggerLevels (snd (studentInteractionSteps studentId i s)) = loggerLevels s"
    by (simp add: studentInteractionSteps_def case_prod_beta invoke_simps notify_simps
          split: option.splits outcome.splits)
  then show ?thesis
    by (simp add: processStudentInteraction_def Let_def case_prod_beta invoke_simps logger_simps
          split: sum.splits option.splits outcome.splits)
qed

lemma processAdminMessage_loggerLevels:
  "loggerLevels (snd (processAdminMessage source msg s)) = loggerLevels s"
proof -
  have "loggerLevels (snd (adminMessageSteps source msg s)) = loggerLevels s"
    by (simp add: adminMessageSteps_def case_prod_beta invoke_simps notify_simps
          split: option.splits outcome.splits)
  then show ?thesis
    by (simp add: processAdminMessage_def case_prod_beta logger_simps split: sum.splits)
qed

lemma healthCheck_loggerLevels:
  "loggerLevels (snd (healthCheck reg s)) = loggerLevels s"
  by (simp add: healthCheck_def Let_def emit_simps split: sum.splits)

lemma updateStatus_loggerLevels:
  "loggerLevels (updateStatus a st patch s) = loggerLevels s"
  by (simp add: updateStatus_def Let_def emit_simps update_object_simps)

lemma initialize_emergencyMode:
  "emergencyMode (systemState (snd (initialize reg s))) = emergencyMode (systemState s)"
  by (simp add: initialize_def Let_def case_prod_beta initializeFailed_simps
        initialize_parts_systemState emit_simps logger_simps small_steps
        split: sum.splits)

lemma routeMessage_emergencyMode:
  "emergencyMode (systemState (snd (routeMessage uuid f t m s))) = emergencyMode (systemState s)"
  by (cases rule: routeMessage_cases [of f s uuid t m]) simp_all

lemma processStudentInteraction_systemState:
  "systemState (snd (processStudentInteraction studentId i s)) = systemState s"
proof -
  have "systemState (snd (studentInteractionSteps studentId i s)) = systemState s"
    by (simp add: studentInteractionSteps_def case_prod_beta invoke_simps notify_simps
          split: option.splits outcome.splits)
  then show ?thesis
    by (simp add: processStudentInteraction_def Let_def case_prod_beta invoke_simps logger_simps
          split: sum.splits option.splits outcome.splits)
qed

lemma processAdminMessage_systemState:
  "systemState (snd (processAdminMessage source msg s)) = systemState s"
proof -
  have "systemState (snd (adminMessageSteps source msg s)) = systemState s"
    by (simp add: adminMessageSteps_def case_prod_beta invoke_simps notify_simps
          split: option.splits outcome.splits)
  then show ?thesis
    by (simp add: processAdminMessage_def case_prod_beta logger_simps split: sum.splits)
qed

lemma healthCheck_emergencyMode:
  "emergencyMode (systemState (snd (healthCheck reg s))) = emergencyMode (systemState s)"
  by (simp add: healthCheck_def Let_def emit_simps split: sum.splits)

lemma handleEmergency_emergencyMode:
  "emergencyMode (systemState s) \<Longrightarrow> emergencyMode (systemState (snd (handleEmergency t d s)))"
  by (cases "''critical'' \<in> set (loggerLevels s)")
     (simp_all add: handleEmergency_systemState handleEmergency_without_critical)

text \<open>A logger without the method \<^verbatim>\<open>critical\<close> stays without it, and the emergency
  flag stays what it is, whatever the orchestrator does.\<close>

lemma exec_without_critical:
  assumes "''critical'' \<notin> set (loggerLevels s)"
  shows "loggerLevels (exec op s) = loggerLevels s"
    and "emergencyMode (systemState (exec op s)) = emergencyMode (systemState s)"
proof -
  show "loggerLevels (exec op s) = loggerLevels s"
    using assms
    by (cases op)
       (simp_all add: initialize_loggerLevels initialize_parts_loggerLevels small_steps logger_simps
          createAgent_loggerLevels routeMessage_loggerLevels sendMessage_def
          updateStatus_loggerLevels processStudentInteraction_loggerLevels
          handleEmergency_without_critical processAdminMessage_loggerLevels
          healthCheck_loggerLevels advanceClock_def installImplementation_simps)
  show "emergencyMode (systemState (exec op s)) = emergencyMode (systemState s)"
    using assms
    by (cases op)
       (simp_all add: initialize_emergencyMode initialize_parts_systemState small_steps logger_simps
          createAgent_systemState routeMessage_emergencyMode sendMessage_def updateStatus_objects
          processStudentInteraction_systemState handleEmergency_without_critical
          processAdminMessage_systemState healthCheck_emergencyMode advanceClock_def
          installImplementation_simps)
qed

lemma run_without_critical:
  assumes "''critical'' \<notin> set (loggerLevels s)"
  shows "loggerLevels (run ops s) = loggerLevels s
         \<and> emergencyMode (systemState (run ops s)) = emergencyMode (systemState s)"
  using assms
proof (induction ops arbitrary: s)
  case Nil
  show ?case by simp
next
  case (Cons op ops)
  from exec_without_critical [OF Cons.prems, of op]
  have step: "loggerLevels (exec op s) = loggerLevels s"
    "emergencyMode (systemState (exec op s)) = emergencyMode (systemState s)"
    by simp_all
  with Cons.prems have "''critical'' \<notin> set (loggerLevels (exec op s))" by simp
  from Cons.IH [OF this] step show ?case by simp
qed

text \<open>In every state an orchestrator reaches from its constructor the logger is the
  one of \<^verbatim>\<open>setupLogger\<close>, the emergency flag is clear, and \<^verbatim>\<open>handleEmergency\<close>
  rejects on its first line and changes nothing.\<close>

lemma reachable_logger:
  "loggerLevels (run ops (constructor t)) = setupLogger"
  "''critical'' \<notin> set (loggerLevels (run ops (constructor t)))"
  "\<not> emergencyMode (systemState (run ops (constructor t)))"
proof -
  have c: "''critical'' \<notin> set (loggerLevels (constructor t))"
    by (simp add: constructor_fields setupLogger_def)
  from run_without_critical [OF c, of ops]
  show "loggerLevels (run ops (constructor t)) = setupLogger"
    "\<not> emergencyMode (systemState (run ops (constructor t)))"
    by (simp_all add: constructor_fields)
  then show "''critical'' \<notin> set (loggerLevels (run ops (constructor t)))"
    by (simp add: setupLogger_def)
qed

lemma handleEmergency_rejects:
  "handleEmergency emergencyType data (run ops (constructor t))
     = (Inl (TypeError ''this.logger.critical is not a function''), run ops (constructor t))"
  by (rule handleEmergency_without_critical) (rule reachable_logger)

lemma started_without_critical: "''critical'' \<notin> set (loggerLevels started)"
  by (simp add: started_fields setupLogger_def)

section \<open>The claims\<close>

subsection \<open>C1: one audit record for every routing\<close>

text \<open>The number of audit records a routing writes for its envelope: one when there
  is a Black Box and the review was skipped or ended in an approval, none otherwise.\<close>

lemma routeMessage_audit_count:
  "length (auditRecords uuid (newCalls s (snd (routeMessage uuid f t m s)))) =
     (if blackBox s \<noteq> None
         \<and> (f = ''guardian'' \<or> guardian s = None
              \<or> list_ex (isApproval uuid) (newCalls s (snd (routeMessage uuid f t m s))))
      then 1 else 0)"
proof (cases rule: routeMessage_cases [of f s uuid t m])
  case skipped
  then show ?thesis
    by (auto simp: loggingAndDelivery_audits buildEnvelope_simps)
next
  case (blocked g out)
  then show ?thesis by (simp add: auditRecords_def)
next
  case (approved g r e')
  have "auditRecords uuid ((g, EthicalReview (buildEnvelope uuid f t m s), Returns r)
                            # loggingAndDelivery e' s)
         = auditRecords uuid (loggingAndDelivery e' s)"
    by (simp add: auditRecords_def)
  with approved show ?thesis
    by (simp add: loggingAndDelivery_audits buildEnvelope_simps)
qed

text \<open>Claim C1 (an audit record for every routing, rejected ones included), evaluated on the
  started example deployment: the Guardian that \<^verbatim>\<open>createAgent\<close> builds answers the review
  without an \<^verbatim>\<open>approved\<close> property, \<^verbatim>\<open>routeMessage\<close> returns the failure
  answer with an undefined reason, the only agent called is the Guardian, and no audit
  record for the envelope is written.\<close>

theorem routeMessage_rejection_unaudited:
  "fst (routeMessage ''u1'' ''math'' ''counseling'' ''hello'' started) = failure
   \<and> receivers (newCalls started (snd (routeMessage ''u1'' ''math'' ''counseling'' ''hello'' started))) = [0]
   \<and> auditRecords ''u1''
        (newCalls started (snd (routeMessage ''u1'' ''math'' ''counseling'' ''hello'' started))) = []"
proof -
  let ?e = "buildEnvelope ''u1'' ''math'' ''counseling'' ''hello'' started"
  have "answer 0 (EthicalReview ?e) started =
          Returns \<lparr>success = True,
                   response = Some ''The Guardian processed message: ethical_review'',
                   responded_at = Some 1000, approved = False, reason = None,
                   error_message = None, containsGoals = False, extractedGoals = []\<rparr>"
    by (simp add: answer_eq started_fields started_objects)
  then have "fst (routeMessage ''u1'' ''math'' ''counseling'' ''hello'' started) = failure"
    using routeMessage_rejected_response [of "''math''" started 0 "''u1''" "''counseling''" "''hello''"]
    by (simp add: started_fields failure_def)
  then show ?thesis by (simp add: route_eval)
qed

subsection \<open>C2: delivery and the Guardian's approval\<close>

text \<open>Claim C2, as amended. For a sender other than \<^verbatim>\<open>guardian\<close> and with the Guardian in
  place, the envelope is delivered if and only if the Guardian approved it, the Black
  Box logging did not throw and the target id is among the active agents; the delivery
  is then a single call, to the agent registered under the target id. So a review that
  throws or does not approve blocks the delivery.\<close>

theorem routeMessage_delivered_iff:
  assumes "fromAgentId \<noteq> ''guardian''" and "guardian s = Some g"
  shows "(list_ex (isDelivery uuid) (newCalls s (snd (routeMessage uuid fromAgentId toAgentId msg s)))
          \<longleftrightarrow>
          list_ex (isApproval uuid) (newCalls s (snd (routeMessage uuid fromAgentId toAgentId msg s)))
          \<and> \<not> list_ex isAuditFailure (newCalls s (snd (routeMessage uuid fromAgentId toAgentId msg s)))
          \<and> map_of (activeAgents s) toAgentId \<noteq> None)
         \<and> receivers (filter (isDelivery uuid)
                        (newCalls s (snd (routeMessage uuid fromAgentId toAgentId msg s))))
             = (if list_ex (isDelivery uuid)
                     (newCalls s (snd (routeMessage uuid fromAgentId toAgentId msg s)))
                then (case map_of (activeAgents s) toAgentId of None \<Rightarrow> [] | Some a \<Rightarrow> [a])
                else [])"
proof (cases rule: routeMessage_cases [of fromAgentId s uuid toAgentId msg])
  case skipped
  with assms show ?thesis by simp
next
  case (blocked g' out)
  then show ?thesis by (simp add: receivers_def)
next
  case (approved g' r e')
  have id: "envelope_id e' = uuid" and to: "to_agent e' = toAgentId"
    by (simp_all add: approved(4) buildEnvelope_simps)
  show ?thesis
    using loggingAndDelivery_delivered [of uuid e' s] loggingAndDelivery_receivers [of uuid e' s]
    by (simp add: approved(3,5) id to buildEnvelope_simps)
qed

text \<open>Claim C2 as stated fails, in both directions. On the started deployment the
  Guardian approves, the target id is unknown, and nothing is delivered. On an
  orchestrator without a Guardian the review is skipped, and the message is delivered
  to the math agent although nobody approved it.\<close>

theorem routeMessage_delivery_counterexample:
  "list_ex (isApproval ''u1'')
     (newCalls (installImplementation 0 approving started)
        (snd (routeMessage ''u1'' ''math'' ''library'' ''hello''
                (installImplementation 0 approving started))))
   \<and> \<not> list_ex (isDelivery ''u1'')
     (newCalls (installImplementation 0 approving started)
        (snd (routeMessage ''u1'' ''math'' ''library'' ''hello''
                (installImplementation 0 approving started))))
   \<and> guardian unguarded = None
   \<and> \<not> list_ex (isApproval ''u2'')
     (newCalls unguarded (snd (routeMessage ''u2'' ''teacher'' ''math'' ''hello'' unguarded)))
   \<and> list_ex (isDelivery ''u2'')
     (newCalls unguarded (snd (routeMessage ''u2'' ''teacher'' ''math'' ''hello'' unguarded)))"
  by (simp add: route_eval unguarded_fields)

text \<open>An approved message on the example deployment reaches the Counseling agent
  (object 4), once.\<close>

theorem routeMessage_delivered_iff_witness:
  "''math'' \<noteq> ''guardian'' \<and> guardian (installImplementation 0 approving started) = Some 0
   \<and> list_ex (isDelivery ''u1'')
        (newCalls (installImplementation 0 approving started)
           (snd (routeMessage ''u1'' ''math'' ''counseling'' ''hello''
                   (installImplementation 0 approving started))))
   \<and> receivers (filter (isDelivery ''u1'')
        (newCalls (installImplementation 0 approving started)
           (snd (routeMessage ''u1'' ''math'' ''counseling'' ''hello''
                   (installImplementation 0 approving started))))) = [4]"
  using routeMessage_delivered_iff [of "''math''" "installImplementation 0 approving started" 0
           "''u1''" "''counseling''" "''hello''"]
  by (simp add: route_eval)

text \<open>Without a Guardian the review is skipped: delivery then depends on the Black Box
  logging and on the target alone.\<close>

lemma routeMessage_without_guardian:
  assumes "guardian s = None"
  shows "list_ex (isDelivery uuid) (newCalls s (snd (routeMessage uuid fromAgentId toAgentId msg s)))
          \<longleftrightarrow>
          \<not> list_ex isAuditFailure (newCalls s (snd (routeMessage uuid fromAgentId toAgentId msg s)))
          \<and> map_of (activeAgents s) toAgentId \<noteq> None"
proof (cases rule: routeMessage_cases [of fromAgentId s uuid toAgentId msg])
  case skipped
  then show ?thesis
    using loggingAndDelivery_delivered [of uuid "buildEnvelope uuid fromAgentId toAgentId msg s" s]
    by (simp add: buildEnvelope_simps)
next
  case (blocked g out)
  with assms show ?thesis by simp
next
  case (approved g r e')
  with assms show ?thesis by simp
qed

subsection \<open>C3: validation in createAgent\<close>

text \<open>Claim C3, as amended. Given a configuration object, \<^verbatim>\<open>createAgent\<close> always succeeds:
  it returns the new agent, whose name is whatever \<^verbatim>\<open>config.name\<close> is (possibly
  absent), and makes the registry entry of the id point to it, whatever was registered
  before. It fails only when the configuration itself is missing, with a TypeError.\<close>

theorem createAgent_never_validates:
  "fst (createAgent agentId (Some c) s) = Inr (nextAddr s)
   \<and> map_of (agents (snd (createAgent agentId (Some c) s))) agentId = Some (nextAddr s)
   \<and> name (objects (snd (createAgent agentId (Some c) s)) (nextAddr s)) = config_name c
   \<and> status (objects (snd (createAgent agentId (Some c) s)) (nextAddr s)) = ''active''
   \<and> (\<exists>text. createAgent agentId None s = (Inl (TypeError text), s))"
  by (simp add: createAgent_simps createAgent_None update_conv')

text \<open>Claim C3 as stated fails: a configuration without a name is accepted, and creating
  an agent under the id \<^verbatim>\<open>math\<close> a second time succeeds and replaces the registry
  entry (object 3) by the new agent (object 6).\<close>

theorem createAgent_overwrite_counterexample:
  "fst (createAgent ''math'' (Some ((exampleConfig ''The Mathematician'' 3)\<lparr>config_name := None\<rparr>))
          (constructor 1000)) = Inr 0
   \<and> map_of (agents started) ''math'' = Some 3
   \<and> fst (createAgent ''math'' (Some (exampleConfig ''Another'' 2)) started) = Inr 6
   \<and> map_of (agents (snd (createAgent ''math'' (Some (exampleConfig ''Another'' 2)) started))) ''math''
        = Some 6"
  by (simp add: createAgent_simps constructor_fields started_fields)

subsection \<open>C4: failures during start-up\<close>

text \<open>Claim C4. With the Guardian's, the Black Box's and the student-facing agent's
  configuration present, \<^verbatim>\<open>initialize\<close> resolves whatever the departmental entries are:
  the status becomes operational, the student-facing agent is created and active, every
  departmental entry whose creation throws is logged at level error and left out of
  the active agents, and the others are created. If one of the three configurations is
  missing, \<^verbatim>\<open>initialize\<close> rejects and the status becomes error.\<close>

theorem initialize_policy:
  assumes "departmentalAgents reg = Some ds"
  shows "if registry_guardian reg \<noteq> None \<and> registry_blackBox reg \<noteq> None
            \<and> registry_agentricAI reg \<noteq> None
         then fst (initialize reg s) = Inr ()
            \<and> systemState (snd (initialize reg s))
                 = (systemState s)\<lparr>state_status := ''operational''\<rparr>
            \<and> studentAgent (snd (initialize reg s))
                 = Some (nextAddr s + 2 + length (filter (\<lambda>(d, c). c \<noteq> None) ds))
            \<and> map_of (activeAgents (snd (initialize reg s))) ''agentricAI''
                 = studentAgent (snd (initialize reg s))
            \<and> isStudentFacing (objects (snd (initialize reg s))
                 (nextAddr s + 2 + length (filter (\<lambda>(d, c). c \<noteq> None) ds))) = Some True
            \<and> nextAddr (snd (initialize reg s))
                 = nextAddr s + 3 + length (filter (\<lambda>(d, c). c \<noteq> None) ds)
            \<and> fst ` set (activeAgents (snd (initialize reg s)))
                 = fst ` set (activeAgents s) \<union> {''guardian'', ''blackBox'', ''agentricAI''}
                   \<union> fst ` set (filter (\<lambda>(d, c). c \<noteq> None) ds)
            \<and> errorLogs s (snd (initialize reg s))
                 = map (\<lambda>(d, c). (''error'', ''Failed to initialize '' @ d @ '' agent:'',
                                   Some ''Cannot read properties of undefined (reading id)''))
                     (filter (\<lambda>(d, c). c = None) ds)
         else (\<exists>e. fst (initialize reg s) = Inl e)
            \<and> state_status (systemState (snd (initialize reg s))) = ''error''"
proof (cases "registry_guardian reg \<noteq> None \<and> registry_blackBox reg \<noteq> None
            \<and> registry_agentricAI reg \<noteq> None")
  case False
  then have "registry_guardian reg = None \<or> registry_blackBox reg = None
           \<or> departmentalAgents reg = None \<or> registry_agentricAI reg = None"
    by auto
  then have "(\<exists>e. fst (initialize reg s) = Inl e)
            \<and> state_status (systemState (snd (initialize reg s))) = ''error''"
    by (rule initialize_fails)
  then show ?thesis unfolding if_not_P [OF False] .
next
  case True
  then obtain cg cb cs where cfg: "registry_guardian reg = Some cg"
    "registry_blackBox reg = Some cb" "registry_agentricAI reg = Some cs"
    by auto
  let ?s0 = "logger ''info'' ''Initializing AgentricAI University Orchestrator'' None s"
  let ?s1 = "snd (initializeImmutableAgents reg ?s0)"
  let ?s2 = "initializeDepartments ds ?s1"
  let ?s3 = "snd (initializeStudentAgent reg ?s2)"
  note steps = initialize_steps [OF cfg(1,2) assms cfg(3), of s]
  note imm = initializeImmutableAgents_ok [OF cfg(1,2), of ?s0]
  note dep = initializeDepartments_frame [of ds ?s1]
  note stu = initializeStudentAgent_ok [OF cfg(3), of ?s2]
  define L :: "string \<times> config option \<Rightarrow> logEntry" where
    "L = (\<lambda>(d, c). case c of
                          None \<Rightarrow> (''error'', ''Failed to initialize '' @ d @ '' agent:'',
                                   Some ''Cannot read properties of undefined (reading id)'')
                        | Some cfg \<Rightarrow> (''info'',
                                   ''Departmental agent '' @ [CHR 0x27]
                                     @ (case config_name cfg of None \<Rightarrow> ''undefined'' | Some n \<Rightarrow> n)
                                     @ [CHR 0x27] @ '' initialized'', None))"
  define E :: "string \<times> config option \<Rightarrow> logEntry" where
    "E = (\<lambda>(d, c). (''error'', ''Failed to initialize '' @ d @ '' agent:'',
                                   Some ''Cannot read properties of undefined (reading id)''))"
  have errs: "filter (\<lambda>entry. fst entry = ''error'') (map L xs)
                = map E (filter (\<lambda>(d, c). c = None) xs)" for xs
    by (induction xs) (auto simp: L_def E_def split: option.splits)
  have "logs ?s2 = logs ?s1 @ map L ds"
    using dep unfolding L_def by blast
  then have "logs (snd (initialize reg s))
               = logs s @ ([(''info'', ''Initializing AgentricAI University Orchestrator'', None),
                            (''info'', ''Immutable agents initialized successfully'', None)]
                           @ map L ds
                           @ [(''info'', ''Student-facing agent initialized successfully'', None),
                              (''info'', ''Communication channels established'', None),
                              (''info'', ''Orchestrator successfully initialized'', None)])"
    by (simp add: steps(9) stu imm logger_simps)
  then have "errorLogs s (snd (initialize reg s)) = map E (filter (\<lambda>(d, c). c = None) ds)"
    by (simp add: errorLogs_def errs)
  then have "errorLogs s (snd (initialize reg s))
                 = map (\<lambda>(d, c). (''error'', ''Failed to initialize '' @ d @ '' agent:'',
                                   Some ''Cannot read properties of undefined (reading id)''))
                     (filter (\<lambda>(d, c). c = None) ds)"
    unfolding E_def .
  moreover have "fst ` set (activeAgents (snd (initialize reg s)))
                 = fst ` set (activeAgents s) \<union> {''guardian'', ''blackBox'', ''agentricAI''}
                   \<union> fst ` set (filter (\<lambda>(d, c). c \<noteq> None) ds)"
    by (simp add: steps(6) stu dep imm logger_simps dom_update Un_commute Un_left_commute
          insert_commute)
  moreover have "map_of (activeAgents (snd (initialize reg s))) ''agentricAI''
                 = studentAgent (snd (initialize reg s))"
    by (simp add: steps(5,6) stu update_conv')
  moreover have "studentAgent (snd (initialize reg s))
                 = Some (nextAddr s + 2 + length (filter (\<lambda>(d, c). c \<noteq> None) ds))"
    by (simp add: steps(5) stu dep imm logger_simps)
  moreover have "isStudentFacing (objects (snd (initialize reg s))
                 (nextAddr s + 2 + length (filter (\<lambda>(d, c). c \<noteq> None) ds))) = Some True"
  proof -
    have "nextAddr ?s2 = nextAddr s + 2 + length (filter (\<lambda>(d, c). c \<noteq> None) ds)"
      by (simp add: dep imm logger_simps)
    then show ?thesis
      using stu by (simp add: steps(7))
  qed
  moreover have "nextAddr (snd (initialize reg s))
                 = nextAddr s + 3 + length (filter (\<lambda>(d, c). c \<noteq> None) ds)"
    by (simp add: steps(8) stu dep imm logger_simps)
  ultimately show ?thesis
    unfolding if_P [OF True] using steps(1,2) by blast
qed

text \<open>A registry whose science entry is \<^verbatim>\<open>null\<close> starts with four agents and one
  error entry in the log; a registry without a Guardian entry does not start.\<close>

theorem initialize_policy_witness:
  "departmentalAgents faultyDepartment
     = Some [(''principal'', Some (exampleConfig ''The Overseer'' 1)),
             (''science'', None),
             (''counseling'', Some (exampleConfig ''The Listener'' 4))]
   \<and> fst (initialize faultyDepartment (constructor 1000)) = Inr ()
   \<and> state_status (systemState (snd (initialize faultyDepartment (constructor 1000))))
        = ''operational''
   \<and> studentAgent (snd (initialize faultyDepartment (constructor 1000))) = Some 4
   \<and> map_of (activeAgents (snd (initialize faultyDepartment (constructor 1000))))
        ''agentricAI'' = Some 4
   \<and> isStudentFacing (objects (snd (initialize faultyDepartment (constructor 1000))) 4)
        = Some True
   \<and> map_of (activeAgents (snd (initialize faultyDepartment (constructor 1000))))
        ''science'' = None
   \<and> errorLogs (constructor 1000)
        (snd (initialize faultyDepartment (constructor 1000)))
        = [(''error'', ''Failed to initialize science agent:'',
            Some ''Cannot read properties of undefined (reading id)'')]
   \<and> registry_guardian missingGuardian = None
   \<and> (\<exists>e. fst (initialize missingGuardian (constructor 1000)) = Inl e)
   \<and> state_status (systemState (snd (initialize missingGuardian (constructor 1000))))
        = ''error''"
proof -
  let ?s = "constructor 1000"
  have d: "departmentalAgents faultyDepartment
     = Some [(''principal'', Some (exampleConfig ''The Overseer'' 1)),
             (''science'', None),
             (''counseling'', Some (exampleConfig ''The Listener'' 4))]"
    by (simp add: faultyDepartment_def exampleRegistry_def)
  have c: "registry_guardian faultyDepartment \<noteq> None \<and> registry_blackBox faultyDepartment \<noteq> None
            \<and> registry_agentricAI faultyDepartment \<noteq> None"
    by (simp add: faultyDepartment_def exampleRegistry_def)
  have d': "departmentalAgents missingGuardian
     = Some [(''principal'', Some (exampleConfig ''The Overseer'' 1)),
             (''math'', Some (exampleConfig ''The Mathematician'' 3)),
             (''counseling'', Some (exampleConfig ''The Listener'' 4))]"
    by (simp add: missingGuardian_def exampleRegistry_def)
  have c': "\<not> (registry_guardian missingGuardian \<noteq> None \<and> registry_blackBox missingGuardian \<noteq> None
            \<and> registry_agentricAI missingGuardian \<noteq> None)"
    by (simp add: missingGuardian_def)
  note good = initialize_policy [OF d, of ?s, unfolded if_P [OF c]]
  note bad = initialize_policy [OF d', of ?s, unfolded if_not_P [OF c']]
  have "map_of (activeAgents (snd (initialize faultyDepartment ?s))) ''science'' = None"
    using good by (simp add: constructor_fields map_of_eq_None_iff)
  moreover have "registry_guardian missingGuardian = None"
    by (simp add: missingGuardian_def)
  ultimately show ?thesis
    using good bad d by (simp add: constructor_fields eval_nat_numeral)
qed

subsection \<open>C5: the notifications of an emergency\<close>

text \<open>Claim C5 (an emergency notifies the Guardian first, then the Counseling and the
  Principal agent, a failure to notify one not preventing the others), evaluated in
  every state that the orchestrator reaches from its constructor, and in the started
  example deployment, which has a Guardian, a Counseling agent and a Principal agent:
  \<^verbatim>\<open>handleEmergency\<close> rejects with the TypeError of its first statement, the call of
  the method \<^verbatim>\<open>critical\<close> that the logger of \<^verbatim>\<open>setupLogger\<close> does not have, and it
  calls no agent at all: neither the Guardian nor the Counseling agent nor the
  Principal agent is notified. \<close>

theorem handleEmergency_notifies_nobody:
  "fst (handleEmergency emergencyType data (run ops (constructor t)))
     = Inl (TypeError ''this.logger.critical is not a function'')
   \<and> newCalls (run ops (constructor t))
        (snd (handleEmergency emergencyType data (run ops (constructor t)))) = []
   \<and> guardian started = Some 0
   \<and> map_of (activeAgents started) ''counseling'' = Some 4
   \<and> map_of (activeAgents started) ''principal'' = Some 2
   \<and> fst (handleEmergency ''medical'' ''details'' started)
        = Inl (TypeError ''this.logger.critical is not a function'')
   \<and> newCalls started (snd (handleEmergency ''medical'' ''details'' started)) = []"
  by (simp add: handleEmergency_rejects
        handleEmergency_without_critical [OF started_without_critical]
        newCalls_def started_fields)

subsection \<open>C6: the department classifier\<close>

lemmas classify = determineDepartment_def toLowerCase_def lower_char_def

lemma includes_str_sublist: "includes_str s sub = sublist sub s"
  by (induction s) (auto simp: sublist_Cons_right)

text \<open>Lower-casing keeps the length, changes nothing but the letters A to Z, and
  leaves no such letter behind.\<close>

lemma toLowerCase_properties:
  "length (toLowerCase s) = length s"
  "set s \<inter> set ''ABCDEFGHIJKLMNOPQRSTUVWXYZ'' = {} \<Longrightarrow> toLowerCase s = s"
  "set (toLowerCase s) \<inter> set ''ABCDEFGHIJKLMNOPQRSTUVWXYZ'' = {}"
  "toLowerCase (toLowerCase s) = toLowerCase s"
proof -
  define U where "U = set ''ABCDEFGHIJKLMNOPQRSTUVWXYZ''"
  have same: "lower_char c = c" if "c \<notin> U" for c
    using that by (simp add: lower_char_def U_def)
  have low: "lower_char c \<notin> U" for c
    by (simp add: lower_char_def U_def)
  show "length (toLowerCase s) = length s" by (simp add: toLowerCase_def)
  have "toLowerCase s = s" if "set s \<inter> U = {}"
    unfolding toLowerCase_def using that by (intro map_idI same) blast
  then show "set s \<inter> set ''ABCDEFGHIJKLMNOPQRSTUVWXYZ'' = {} \<Longrightarrow> toLowerCase s = s"
    unfolding U_def .
  have "set (toLowerCase s) \<inter> U = {}"
    unfolding toLowerCase_def using low by auto
  then show "set (toLowerCase s) \<inter> set ''ABCDEFGHIJKLMNOPQRSTUVWXYZ'' = {}"
    unfolding U_def .
  show "toLowerCase (toLowerCase s) = toLowerCase s"
    unfolding toLowerCase_def using low by (simp add: same)
qed

text \<open>Claim C6, as amended. \<^verbatim>\<open>determineDepartment\<close> is the first-match-wins classifier of
  the keyword table over the lower-cased content of the interaction (a missing content
  counts as the empty string): its result is the department of the first row of the
  table one of whose keywords occurs in the lower-cased content, and no department when
  no row has one. So it is a function of the content alone. The contents of the claim
  give math, counseling and no department; the content \<open>let's paint together\<close> gives
  no department either, since it contains neither \<open>art\<close> nor \<open>creative\<close>. A content
  that matches several rows gets the first, and a missing content gets none. \<close>

theorem determineDepartment_first_match:
  "determineDepartment i
     = specFirstMatch (case interaction_content i of None \<Rightarrow> [] | Some c \<Rightarrow> toLowerCase c)
   \<and> determineDepartment \<lparr>interaction_content = Some ''I need help with math homework''\<rparr> = Some ''math''
   \<and> determineDepartment \<lparr>interaction_content = Some ''I feel sad today''\<rparr> = Some ''counseling''
   \<and> determineDepartment \<lparr>interaction_content = Some ''hello there''\<rparr> = None
   \<and> determineDepartment \<lparr>interaction_content = Some ''let's paint together''\<rparr> = None
   \<and> determineDepartment \<lparr>interaction_content = Some ''Sad about my MATH experiment''\<rparr> = Some ''math''
   \<and> determineDepartment \<lparr>interaction_content = None\<rparr> = None"
proof -
  have "determineDepartment i
     = specFirstMatch (case interaction_content i of None \<Rightarrow> [] | Some c \<Rightarrow> toLowerCase c)"
    by (simp add: determineDepartment_def specFirstMatch_def keywordTable_def Let_def
          includes_str_sublist)
  then show ?thesis by (simp add: classify)
qed

text \<open>Claim C6 as stated fails on its third example.\<close>

theorem determineDepartment_paint_counterexample:
  "determineDepartment \<lparr>interaction_content = Some ''let's paint together''\<rparr> \<noteq> Some ''arts''"
  by (simp add: classify)

subsection \<open>C7: the priority of an envelope\<close>

text \<open>Claim C7. When sender and target are both among the active agents, the priority of
  the envelope that \<^verbatim>\<open>routeMessage\<close> builds is 1 if either id is \<^verbatim>\<open>guardian\<close>,
  else 2 if either id is \<^verbatim>\<open>counseling\<close>, else the smaller of the two agents'
  priorities; every call the routing makes carries an envelope of that priority.\<close>

theorem getMessagePriority_rule:
  assumes "map_of (activeAgents s) fromAgentId = Some fromAgent"
    and "map_of (activeAgents s) toAgentId = Some toAgent"
  shows "msg_priority (buildEnvelope uuid fromAgentId toAgentId msg s) =
           (if fromAgentId = ''guardian'' \<or> toAgentId = ''guardian'' then 1
            else if fromAgentId = ''counseling'' \<or> toAgentId = ''counseling'' then 2
            else min (priority (objects s fromAgent)) (priority (objects s toAgent)))
         \<and> list_all (\<lambda>c. map_option msg_priority (callEnvelope c)
                            = Some (msg_priority (buildEnvelope uuid fromAgentId toAgentId msg s)))
              (newCalls s (snd (routeMessage uuid fromAgentId toAgentId msg s)))"
proof -
  let ?e = "buildEnvelope uuid fromAgentId toAgentId msg s"
  have env: "list_all (\<lambda>c. callEnvelope c = Some e) cs \<Longrightarrow> msg_priority e = msg_priority ?e \<Longrightarrow>
          list_all (\<lambda>c. map_option msg_priority (callEnvelope c) = Some (msg_priority ?e)) cs"
    for e cs
    by (induction cs) auto
  have "list_all (\<lambda>c. map_option msg_priority (callEnvelope c) = Some (msg_priority ?e))
              (newCalls s (snd (routeMessage uuid fromAgentId toAgentId msg s)))"
  proof (cases rule: routeMessage_cases [of fromAgentId s uuid toAgentId msg])
    case skipped
    then show ?thesis
      using env [OF loggingAndDelivery_envelope [of ?e s]] by simp
  next
    case (blocked g out)
    then show ?thesis by simp
  next
    case (approved g r e')
    have "msg_priority e' = msg_priority ?e" by (simp add: approved(4))
    with approved show ?thesis
      using env [OF loggingAndDelivery_envelope [of e' s]] by simp
  qed
  then show ?thesis
    using assms by (simp add: buildEnvelope_def getMessagePriority_def)
qed

text \<open>On the example deployment: math to principal has priority min 3 1, math to
  counseling 2, guardian to counseling 1.\<close>

theorem getMessagePriority_rule_witness:
  "map_of (activeAgents started) ''math'' = Some 3
   \<and> map_of (activeAgents started) ''principal'' = Some 2
   \<and> map_of (activeAgents started) ''counseling'' = Some 4
   \<and> map_of (activeAgents started) ''guardian'' = Some 0
   \<and> msg_priority (buildEnvelope ''u1'' ''math'' ''principal'' ''hello'' started) = 1
   \<and> msg_priority (buildEnvelope ''u2'' ''math'' ''counseling'' ''hello'' started) = 2
   \<and> msg_priority (buildEnvelope ''u3'' ''guardian'' ''counseling'' ''hello'' started) = 1"
  using getMessagePriority_rule [of started "''math''" 3 "''principal''" 2 "''u1''" "''hello''"]
    getMessagePriority_rule [of started "''math''" 3 "''counseling''" 4 "''u2''" "''hello''"]
    getMessagePriority_rule [of started "''guardian''" 0 "''counseling''" 4 "''u3''" "''hello''"]
  by (simp add: started_fields started_objects)

subsection \<open>C8: the immutable agents\<close>

text \<open>After a start that succeeded the Guardian and the Black Box are in place, with
  priority 0 and the immutable flag set.\<close>

lemma initialize_immutable_agents:
  assumes "fst (initialize reg s) = Inr ()"
  shows "\<exists>g b. guardian (snd (initialize reg s)) = Some g
           \<and> blackBox (snd (initialize reg s)) = Some b
           \<and> priority (objects (snd (initialize reg s)) g) = 0
           \<and> immutable (objects (snd (initialize reg s)) g) = Some True
           \<and> priority (objects (snd (initialize reg s)) b) = 0
           \<and> immutable (objects (snd (initialize reg s)) b) = Some True"
proof -
  have present: "\<not> (registry_guardian reg = None \<or> registry_blackBox reg = None
           \<or> departmentalAgents reg = None \<or> registry_agentricAI reg = None)"
  proof
    assume "registry_guardian reg = None \<or> registry_blackBox reg = None
           \<or> departmentalAgents reg = None \<or> registry_agentricAI reg = None"
    then have "\<exists>e. fst (initialize reg s) = Inl e"
      using initialize_fails [of reg s] by blast
    with assms show False by simp
  qed
  then have "registry_guardian reg \<noteq> None" "registry_blackBox reg \<noteq> None"
    "departmentalAgents reg \<noteq> None" "registry_agentricAI reg \<noteq> None"
    by simp_all
  then obtain cg cb ds cs where cfg: "registry_guardian reg = Some cg"
    "registry_blackBox reg = Some cb" "departmentalAgents reg = Some ds"
    "registry_agentricAI reg = Some cs"
    by blast
  let ?s0 = "logger ''info'' ''Initializing AgentricAI University Orchestrator'' None s"
  let ?s1 = "snd (initializeImmutableAgents reg ?s0)"
  let ?s2 = "initializeDepartments ds ?s1"
  let ?s3 = "snd (initializeStudentAgent reg ?s2)"
  note steps = initialize_steps [OF cfg, of s]
  note imm = initializeImmutableAgents_ok [OF cfg(1,2), of ?s0]
  note dep = initializeDepartments_frame [of ds ?s1]
  note stu = initializeStudentAgent_ok [OF cfg(4), of ?s2]
  have keep: "objects ?s3 a = objects ?s1 a" if "a < nextAddr ?s1" for a
  proof -
    from that have "a \<noteq> nextAddr ?s2" using dep by simp
    with stu have "objects ?s3 a = objects ?s2 a" by blast
    with that show ?thesis by (simp add: initializeDepartments_objects)
  qed
  have "guardian (snd (initialize reg s)) = Some (nextAddr s)"
    "blackBox (snd (initialize reg s)) = Some (Suc (nextAddr s))"
    by (simp_all add: steps stu dep imm logger_simps)
  moreover have "objects (snd (initialize reg s)) (nextAddr s) = objects ?s1 (nextAddr s)"
    "objects (snd (initialize reg s)) (Suc (nextAddr s)) = objects ?s1 (Suc (nextAddr s))"
    by (simp_all add: steps(7) keep imm logger_simps)
  ultimately show ?thesis
    using imm by (simp add: logger_simps)
qed

text \<open>Claim C8 (a mutation of the Guardian or the Black Box fails), evaluated on the
  started example deployment: the Guardian carries the immutable flag, yet
  \<^verbatim>\<open>updateStatus\<close> on it returns normally, sets its status to \<open>disabled\<close> and
  overwrites its metadata, after which the health snapshot reports the Guardian as not
  active; and \<^verbatim>\<open>createAgent\<close> under the id \<^verbatim>\<open>guardian\<close> replaces the Guardian's
  entry in the registry by a new agent of priority 3 without the immutable flag.\<close>

theorem guardian_updateStatus_succeeds:
  "guardian started = Some 0
   \<and> immutable (objects started 0) = Some True
   \<and> status (objects started 0) = ''active''
   \<and> status (objects (updateStatus 0 ''disabled''
                \<lparr>patch_createdAt = None, patch_lastActive = None,
                  patch_interactions = Some 0, patch_successRate = Some 0\<rparr> started) 0) = ''disabled''
   \<and> successRate (metadata (objects (updateStatus 0 ''disabled''
                \<lparr>patch_createdAt = None, patch_lastActive = None,
                  patch_interactions = Some 0, patch_successRate = Some 0\<rparr> started) 0)) = 0
   \<and> map_sum message_of (guardianActive \<circ> flags) (getSystemHealth exampleRegistry started)
        = Inr True
   \<and> map_sum message_of (guardianActive \<circ> flags)
        (getSystemHealth exampleRegistry (updateStatus 0 ''disabled''
                \<lparr>patch_createdAt = None, patch_lastActive = None,
                  patch_interactions = Some 0, patch_successRate = Some 0\<rparr> started))
        = Inr False
   \<and> map_of (agents started) ''guardian'' = Some 0
   \<and> fst (createAgent ''guardian'' (Some (exampleConfig ''Another'' 3)) started) = Inr 6
   \<and> map_of (agents (snd (createAgent ''guardian'' (Some (exampleConfig ''Another'' 3)) started)))
        ''guardian'' = Some 6
   \<and> priority (objects (snd (createAgent ''guardian'' (Some (exampleConfig ''Another'' 3)) started)) 6)
        = 3
   \<and> immutable (objects (snd (createAgent ''guardian'' (Some (exampleConfig ''Another'' 3)) started)) 6)
        = None"
  by (simp add: started_fields started_objects updateStatus_objects assign_metadata_def
        getSystemHealth_def exampleRegistry_def createAgent_simps exampleConfig_def)

subsection \<open>C9: the emergency flag\<close>

text \<open>Claim C9 (any call of \<^verbatim>\<open>handleEmergency\<close> sets \<^verbatim>\<open>emergencyMode\<close>, and the flag stays
  set), evaluated in every state that the orchestrator reaches from its constructor, and
  in the started example deployment: the call rejects on the first statement of the
  method, before the assignment of the flag, and leaves the state as it was, so
  \<^verbatim>\<open>emergencyMode\<close> is false after the call, and false after every sequence of
  operations, calls of \<^verbatim>\<open>handleEmergency\<close> among them. \<close>

theorem handleEmergency_never_sets_emergencyMode:
  "\<not> emergencyMode (systemState (snd (handleEmergency emergencyType data (run ops (constructor t)))))
   \<and> \<not> emergencyMode (systemState (run ops (constructor t)))
   \<and> \<not> emergencyMode (systemState started)
   \<and> handleEmergency ''medical'' ''details'' started
        = (Inl (TypeError ''this.logger.critical is not a function''), started)
   \<and> \<not> emergencyMode (systemState (snd (handleEmergency ''medical'' ''details'' started)))"
  by (simp add: handleEmergency_rejects reachable_logger
        handleEmergency_without_critical [OF started_without_critical] started_fields)

text \<open>The other half of the claim holds: nothing clears the flag. Whatever state has
  it set keeps it set through every operation.\<close>

lemma exec_emergencyMode:
  "emergencyMode (systemState s) \<Longrightarrow> emergencyMode (systemState (exec op s))"
  by (cases op)
     (simp_all add: initialize_emergencyMode initialize_parts_systemState small_steps logger_simps
        createAgent_systemState routeMessage_emergencyMode sendMessage_def updateStatus_objects
        processStudentInteraction_systemState handleEmergency_emergencyMode
        processAdminMessage_systemState healthCheck_emergencyMode advanceClock_def
        installImplementation_simps)

lemma run_emergencyMode:
  "emergencyMode (systemState s) \<Longrightarrow> emergencyMode (systemState (run ops s))"
  by (induction ops arbitrary: s) (simp_all add: exec_emergencyMode)

subsection \<open>C10: the interaction counter\<close>

text \<open>Claim C10. \<^verbatim>\<open>routeMessage\<close> leaves the system state as it was, except that
  \<^verbatim>\<open>totalInteractions\<close> grows by one when the delivery call returned. It is unchanged
  when the target is unknown, when the Guardian did not approve, and when any call
  of the routing threw.\<close>

theorem routeMessage_totalInteractions:
  "systemState (snd (routeMessage uuid fromAgentId toAgentId msg s)) =
     (if list_ex isCompletedDelivery (newCalls s (snd (routeMessage uuid fromAgentId toAgentId msg s)))
      then (systemState s)\<lparr>totalInteractions := totalInteractions (systemState s) + 1\<rparr>
      else systemState s)
   \<and> (map_of (activeAgents s) toAgentId = None
        \<longrightarrow> systemState (snd (routeMessage uuid fromAgentId toAgentId msg s)) = systemState s)
   \<and> (fromAgentId \<noteq> ''guardian'' \<and> guardian s \<noteq> None
        \<and> \<not> list_ex (isApproval uuid) (newCalls s (snd (routeMessage uuid fromAgentId toAgentId msg s)))
        \<longrightarrow> systemState (snd (routeMessage uuid fromAgentId toAgentId msg s)) = systemState s)
   \<and> (list_ex isThrow (newCalls s (snd (routeMessage uuid fromAgentId toAgentId msg s)))
        \<longrightarrow> systemState (snd (routeMessage uuid fromAgentId toAgentId msg s)) = systemState s)"
proof (cases rule: routeMessage_cases [of fromAgentId s uuid toAgentId msg])
  case skipped
  then show ?thesis
    using loggingAndDelivery_completed [of "buildEnvelope uuid fromAgentId toAgentId msg s" s]
    by (auto simp: buildEnvelope_simps)
next
  case (blocked g out)
  then show ?thesis by simp
next
  case (approved g r e')
  have to: "to_agent e' = toAgentId"
    by (simp add: approved(4) buildEnvelope_simps)
  show ?thesis
    using loggingAndDelivery_completed [of e' s]
    by (auto simp: approved(1,2,3,5,6) to buildEnvelope_simps call_tests)
qed

text \<open>On the example deployment: an approved delivery counts once; an unknown target, a
  rejection and a target that throws leave the system state as it was.\<close>

theorem routeMessage_totalInteractions_witness:
  "totalInteractions (systemState (snd (routeMessage ''u1'' ''math'' ''counseling'' ''hello''
       (installImplementation 0 approving started)))) = 1
   \<and> map_of (activeAgents (installImplementation 0 approving started)) ''library'' = None
   \<and> systemState (snd (routeMessage ''u2'' ''math'' ''library'' ''hello''
       (installImplementation 0 approving started))) = systemState started
   \<and> guardian started \<noteq> None
   \<and> \<not> list_ex (isApproval ''u3'')
         (newCalls started (snd (routeMessage ''u3'' ''math'' ''counseling'' ''hello'' started)))
   \<and> systemState (snd (routeMessage ''u3'' ''math'' ''counseling'' ''hello'' started))
        = systemState started
   \<and> list_ex isThrow
         (newCalls (installImplementation 4 failing (installImplementation 0 approving started))
            (snd (routeMessage ''u4'' ''math'' ''counseling'' ''hello''
                   (installImplementation 4 failing (installImplementation 0 approving started)))))
   \<and> systemState (snd (routeMessage ''u4'' ''math'' ''counseling'' ''hello''
          (installImplementation 4 failing (installImplementation 0 approving started))))
        = systemState started"
  using routeMessage_totalInteractions [of "''u1''" "''math''" "''counseling''" "''hello''"
          "installImplementation 0 approving started"]
    routeMessage_totalInteractions [of "''u2''" "''math''" "''library''" "''hello''"
          "installImplementation 0 approving started"]
    routeMessage_totalInteractions [of "''u3''" "''math''" "''counseling''" "''hello''" started]
    routeMessage_totalInteractions [of "''u4''" "''math''" "''counseling''" "''hello''"
          "installImplementation 4 failing (installImplementation 0 approving started)"]
  by (simp add: route_eval)

end
